theory Spec2Isabelle
  imports Complex_Main
begin

section \<open>The SDK boundary\<close>

text \<open>
  Both controllers drive the robot through the vendor class \<open>XArmAPI\<close>, which is not part
  of the repository. Its behaviour is a parameter of every operation below: a record
  \<open>sdk\<close> that says, for the \<open>n\<close>-th call issued on the link, whether the call raises or
  what it returns, and which optional attributes the handle has (\<open>hasattr\<close>). Every call
  that an operation issues is appended to a trace kept beside the controller's fields,
  so that "no move command is issued" and "exactly one stop-and-save" are statements
  about that trace. Python floats are modelled as real numbers.
\<close>

datatype 'a outcome = Raises string | Returns 'a

datatype callback = OnReport | Noop

datatype sdk_call =
    C_new string
  | C_motion_enable bool
  | C_set_mode int
  | C_set_state int
  | C_get_err_warn_code
  | C_clean_error
  | C_clean_warn
  | C_get_tcp_maxlin_vel
  | C_get_tcp_maxlin_acc
  | C_get_version
  | C_get_position
  | C_set_position "real list" real "real option" bool
  | C_set_tcp_jerk int
  | C_disconnect
  | C_set_collision_sensitivity int
  | C_set_teach_sensitivity int
  | C_start_record_trajectory
  | C_stop_record_trajectory "string option"
  | C_register_report_callback callback

record sdk =
  sdk_installed :: bool
  attr_is_radian :: "bool outcome option"
  has_get_err_warn_code :: bool
  has_clean_error :: bool
  has_clean_warn :: bool
  has_get_tcp_maxlin_vel :: bool
  has_get_tcp_maxlin_acc :: bool
  has_set_teach_sensitivity :: bool
  r_new :: "nat \<Rightarrow> unit outcome"
  r_motion_enable :: "nat \<Rightarrow> int outcome"
  r_set_mode :: "nat \<Rightarrow> int outcome"
  r_set_state :: "nat \<Rightarrow> int outcome"
  r_get_err_warn_code :: "nat \<Rightarrow> (int \<times> int \<times> int) outcome"
  r_clean_error :: "nat \<Rightarrow> unit outcome"
  r_clean_warn :: "nat \<Rightarrow> unit outcome"
  r_get_tcp_maxlin_vel :: "nat \<Rightarrow> (int \<times> real option) outcome"
  r_get_tcp_maxlin_acc :: "nat \<Rightarrow> (int \<times> real option) outcome"
  r_get_version :: "nat \<Rightarrow> (int \<times> string) outcome"
  r_get_position :: "nat \<Rightarrow> (int \<times> real list option) outcome"
  r_set_position :: "nat \<Rightarrow> int outcome"
  r_set_tcp_jerk :: "nat \<Rightarrow> unit outcome"
  r_disconnect :: "nat \<Rightarrow> unit outcome"
  r_set_collision_sensitivity :: "nat \<Rightarrow> int outcome"
  r_set_teach_sensitivity :: "nat \<Rightarrow> int outcome"
  r_start_record_trajectory :: "nat \<Rightarrow> int outcome"
  r_stop_record_trajectory :: "nat \<Rightarrow> int outcome"
  r_register_report_callback :: "nat \<Rightarrow> unit outcome"

datatype XArmAPI = XArmAPI string

section \<open>Formatting integers, as an f-string does\<close>

definition digit_char :: "nat \<Rightarrow> char" where
  "digit_char d =
     (if d = 0 then CHR ''0'' else if d = 1 then CHR ''1'' else if d = 2 then CHR ''2''
      else if d = 3 then CHR ''3'' else if d = 4 then CHR ''4'' else if d = 5 then CHR ''5''
      else if d = 6 then CHR ''6'' else if d = 7 then CHR ''7'' else if d = 8 then CHR ''8''
      else CHR ''9'')"

fun str_nat :: "nat \<Rightarrow> string" where
  "str_nat n = (if n < 10 then [digit_char n] else str_nat (n div 10) @ [digit_char (n mod 10)])"

definition str_int :: "int \<Rightarrow> string" where
  "str_int i = (if i < 0 then CHR ''-'' # str_nat (nat (- i)) else str_nat (nat i))"

section \<open>xarm\_state\_lib: ArmState\<close>

record ArmState =
  connected :: bool
  ip :: string
  teach_enabled :: bool
  playing :: bool
  init_pose :: "real list option"
  sdk_version :: "string option"
  last_error :: string
  max_tcp_lin_vel_mmps :: real
  max_tcp_lin_acc_mmps2 :: real
  last_play_speed_pct :: real
  is_radian :: bool

definition ArmState_init :: ArmState where
  "ArmState_init =
     \<lparr> connected = False, ip = ''192.168.1.221'', teach_enabled = False, playing = False,
       init_pose = None, sdk_version = None, last_error = [],
       max_tcp_lin_vel_mmps = 200, max_tcp_lin_acc_mmps2 = 1000,
       last_play_speed_pct = 50, is_radian = False \<rparr>"

section \<open>xarm\_controller\_lib: XArmController\<close>

text \<open>
  The fields \<open>_arm\<close>, \<open>state\<close>, \<open>_stop_event\<close> and \<open>_motion_thread\<close> of the class
  (the lock has no value of its own: the operations are modelled as atomic). A thread
  object is the tuple of arguments its target \<open>_p2p_loop\<close> was given. \<open>spawned\<close> lists
  the threads on which \<open>start()\<close> was called and \<open>calls\<close> the SDK calls issued, oldest
  first.
\<close>

type_synonym p2p_args = "real \<times> real \<times> real \<times> string"

record XArmController =
  arm :: "XArmAPI option"
  state :: ArmState
  stop_event :: bool
  motion_thread :: "p2p_args option"
  spawned :: "p2p_args list"
  calls :: "sdk_call list"

definition XArmController_init :: XArmController where
  "XArmController_init =
     \<lparr> arm = None, state = ArmState_init, stop_event = False, motion_thread = None,
       spawned = [], calls = [] \<rparr>"

definition SPEED_MULTIPLIER :: real where "SPEED_MULTIPLIER = 4"
definition ACCEL_MULTIPLIER :: real where "ACCEL_MULTIPLIER = 4"

definition issue :: "sdk_call \<Rightarrow> XArmController \<Rightarrow> XArmController" where
  "issue c s = s\<lparr>calls := calls s @ [c]\<rparr>"

text \<open>\<open>_check\<close>: the extra diagnostics are fetched only for a non-zero code, and every
  failure while fetching or cleaning them is swallowed.\<close>

definition clean_codes :: "sdk \<Rightarrow> XArmController \<Rightarrow> XArmController" where
  "clean_codes hw s =
     (let s1 = (if has_clean_error hw then issue C_clean_error s else s)
      in if has_clean_warn hw then issue C_clean_warn s1 else s1)"

definition check :: "sdk \<Rightarrow> XArmController \<Rightarrow> int \<Rightarrow> string \<Rightarrow> string \<Rightarrow> (bool \<times> string) \<times> XArmController" where
  "check hw s code ok_msg fail_msg =
     (if code = 0 then ((True, ok_msg), s)
      else if arm s \<noteq> None \<and> has_get_err_warn_code hw then
        (case r_get_err_warn_code hw (length (calls s)) of
           Raises e \<Rightarrow>
             ((False, fail_msg @ '' (code '' @ str_int code @ '')''), issue C_get_err_warn_code s)
         | Returns (c, err, warn) \<Rightarrow>
             ((False, fail_msg @ '' (code '' @ str_int code @ '', '' @
                 ''err='' @ str_int err @ '', '' @ ''warn='' @ str_int warn @ '')''),
              clean_codes hw (issue C_get_err_warn_code s)))
      else ((False, fail_msg @ '' (code '' @ str_int code @ '')''), s))"

definition set_mode_and_ready :: "sdk \<Rightarrow> XArmController \<Rightarrow> int \<Rightarrow> (bool \<times> string) \<times> XArmController" where
  "set_mode_and_ready hw s mode =
     (if arm s = None then ((False, ''SDK not connected''), s)
      else
        (case r_set_mode hw (length (calls s)) of
           Raises e \<Rightarrow> ((False, ''mode/state exception: '' @ e), issue (C_set_mode mode) s)
         | Returns code \<Rightarrow>
             (case check hw (issue (C_set_mode mode) s) code (''mode='' @ str_int mode) ''set_mode failed'' of
                ((ok, msg), s1) \<Rightarrow>
                  if \<not> ok then ((False, msg), s1)
                  else
                    (case r_set_state hw (length (calls s1)) of
                       Raises e \<Rightarrow> ((False, ''mode/state exception: '' @ e), issue (C_set_state 0) s1)
                     | Returns code2 \<Rightarrow>
                         check hw (issue (C_set_state 0) s1) code2 ''ready'' ''set_state failed''))))"

subsection \<open>Pose geometry\<close>

definition radians :: "real \<Rightarrow> real" where
  "radians d = d * pi / 180"

definition rpy_to_rot :: "real \<Rightarrow> real \<Rightarrow> real \<Rightarrow> bool \<Rightarrow> real list list" where
  "rpy_to_rot rx0 ry0 rz0 is_rad =
     (let rx = (if \<not> is_rad then radians rx0 else rx0);
          ry = (if \<not> is_rad then radians ry0 else ry0);
          rz = (if \<not> is_rad then radians rz0 else rz0);
          cx = cos rx; sx = sin rx;
          cy = cos ry; sy = sin ry;
          cz = cos rz; sz = sin rz;
          R00 = cz * cy;
          R01 = cz * sy * sx - sz * cx;
          R02 = cz * sy * cx + sz * sx;
          R10 = sz * cy;
          R11 = sz * sy * sx + cz * cx;
          R12 = sz * sy * cx - cz * sx;
          R20 = - sy;
          R21 = cy * sx;
          R22 = cy * cx
      in [[R00, R01, R02], [R10, R11, R12], [R20, R21, R22]])"

text \<open>\<open>str(axis).lower()\<close>, on the ASCII letters: no other character lowers to one of
  the three letters that the result is compared with.\<close>

definition lower_char :: "char \<Rightarrow> char" where
  "lower_char c =
     (case map_of (zip ''ABCDEFGHIJKLMNOPQRSTUVWXYZ'' ''abcdefghijklmnopqrstuvwxyz'') c of
        None \<Rightarrow> c
      | Some l \<Rightarrow> l)"

definition tool_axis_col :: "string \<Rightarrow> string + nat" where
  "tool_axis_col axis =
     (let a = map lower_char axis
      in if a = ''x'' then Inr 0
         else if a = ''y'' then Inr 1
         else if a = ''z'' then Inr 2
         else Inl (''axis must be '' @ [CHR 0x27] @ ''x'' @ [CHR 0x27] @ '', '' @ [CHR 0x27] @ ''y'' @
                   [CHR 0x27] @ '', or '' @ [CHR 0x27] @ ''z'' @ [CHR 0x27]))"

text \<open>The unit vector of the selected column, lines 347 to 349 of \<open>_p2p_loop\<close>; the
  float power \<open>** 0.5\<close> of a sum of squares is the square root.\<close>

definition axis_direction :: "real list list \<Rightarrow> nat \<Rightarrow> real \<times> real \<times> real" where
  "axis_direction R col =
     (let fx = R ! 0 ! col; fy = R ! 1 ! col; fz = R ! 2 ! col;
          norm = max (1 / 10 ^ 9) (sqrt (fx * fx + fy * fy + fz * fz))
      in (fx / norm, fy / norm, fz / norm))"

definition half_amp :: "real \<Rightarrow> real" where
  "half_amp amp_mm = max 0 amp_mm / 2"

text \<open>Lines 333 to 352: unpacking the six components (\<open>x, y, z, rx, ry, rz = pose\<close>, which
  raises on a pose of another length), and the two endpoints; \<open>_tool_axis_col\<close> raises
  on another axis.\<close>

definition unpack6 :: "real list \<Rightarrow> string + (real \<times> real \<times> real \<times> real \<times> real \<times> real)" where
  "unpack6 pose =
     (case pose of
        [x, y, z, rx, ry, rz] \<Rightarrow> Inr (x, y, z, rx, ry, rz)
      | _ \<Rightarrow>
          (if length pose < 6
           then Inl (''not enough values to unpack (expected 6, got '' @ str_nat (length pose) @ '')'')
           else Inl ''too many values to unpack (expected 6)''))"

definition p2p_endpoints :: "real list \<Rightarrow> bool \<Rightarrow> string \<Rightarrow> real \<Rightarrow> string + (real list \<times> real list)" where
  "p2p_endpoints pose is_rad axis amp_mm =
     (case unpack6 pose of
        Inl e \<Rightarrow> Inl e
      | Inr (x, y, z, rx, ry, rz) \<Rightarrow>
          (case tool_axis_col axis of
             Inl e \<Rightarrow> Inl e
           | Inr col \<Rightarrow>
               (case axis_direction (rpy_to_rot rx ry rz is_rad) col of
                  (fx, fy, fz) \<Rightarrow>
                    (let half = half_amp amp_mm;
                         p_low = [x - fx * half, y - fy * half, z - fz * half, rx, ry, rz];
                         p_high = [x + fx * half, y + fy * half, z + fz * half, rx, ry, rz]
                     in Inr (p_low, p_high)))))"

subsection \<open>The background loop\<close>

datatype thread_exit = Returned | Uncaught string

text \<open>The \<open>while\<close> loop of \<open>_p2p_loop\<close>. The stop event is set by the command threads while
  the loop runs, so each read of it is an input: the list \<open>stops\<close> holds what
  \<open>is_set()\<close> answers at the successive tests. The loop may never end; a list that runs
  out before the loop has ended gives \<open>None\<close>.\<close>

fun bounce :: "sdk \<Rightarrow> real list \<Rightarrow> real list \<Rightarrow> real \<Rightarrow> real \<Rightarrow> bool \<Rightarrow> bool list \<Rightarrow> XArmController \<Rightarrow> XArmController option" where
  "bounce hw p_low p_high v_target a_target current_target_high [] s = None"
| "bounce hw p_low p_high v_target a_target current_target_high (stop # stops) s =
     (if stop then Some s
      else
        (let target = (if current_target_high then p_high else p_low);
             s1 = issue (C_set_position target v_target (Some a_target) True) s
         in case r_set_position hw (length (calls s)) of
              Raises e \<Rightarrow> Some s1
            | Returns code \<Rightarrow>
                bounce hw p_low p_high v_target a_target (\<not> current_target_high) stops s1))"

definition p2p_loop :: "sdk \<Rightarrow> XArmController \<Rightarrow> p2p_args \<Rightarrow> bool list \<Rightarrow> (thread_exit \<times> XArmController) option" where
  "p2p_loop hw s args stops =
     (case args of (amp_mm, speed_percent, accel_percent, axis) \<Rightarrow>
        if arm s = None then Some (Uncaught ''AssertionError'', s)
        else
          (let vmax = max_tcp_lin_vel_mmps (state s) * SPEED_MULTIPLIER;
               amax = max_tcp_lin_acc_mmps2 (state s) * ACCEL_MULTIPLIER;
               pct_v = max 0 (min 100 speed_percent) / 100;
               pct_a = max 0 (min 100 accel_percent) / 100;
               v_target = pct_v * vmax;
               a_target = pct_a * amax;
               pose = (case init_pose (state s) of None \<Rightarrow> [] | Some p \<Rightarrow> p)
           in if pose = [] \<or> length pose < 6 then Some (Returned, s)
              else
                (let is_rad =
                       (case attr_is_radian hw of
                          None \<Rightarrow> is_radian (state s)
                        | Some (Raises e) \<Rightarrow> is_radian (state s)
                        | Some (Returns b) \<Rightarrow> b)
                 in case p2p_endpoints pose is_rad axis amp_mm of
                      Inl e \<Rightarrow> Some (Uncaught e, s)
                    | Inr (p_low, p_high) \<Rightarrow>
                        (case r_set_tcp_jerk hw (length (calls s)) of
                           Raises e \<Rightarrow> Some (Uncaught e, issue (C_set_tcp_jerk 50000) s)
                         | Returns u \<Rightarrow>
                             map_option (Pair Returned)
                               (bounce hw p_low p_high v_target a_target True stops
                                  (issue (C_set_tcp_jerk 50000) s))))))"

subsection \<open>Commands\<close>

definition play_point_to_point :: "sdk \<Rightarrow> XArmController \<Rightarrow> real \<Rightarrow> real \<Rightarrow> real \<Rightarrow> string \<Rightarrow> string \<times> XArmController" where
  "play_point_to_point hw s amplitude_cm speed_percent accel_percent axis =
     (if \<not> connected (state s) \<or> arm s = None then (''Not connected'', s)
      else if playing (state s) then (''Already playing'', s)
      else
        (case r_get_position hw (length (calls s)) of
           Raises e \<Rightarrow>
             (''Play error: '' @ e,
              (issue C_get_position s)\<lparr>state := (state s)\<lparr>playing := False, last_error := ''Play error: '' @ e\<rparr>\<rparr>)
         | Returns (code, pose) \<Rightarrow>
             (let s1 = issue C_get_position s
              in case pose of
                   None \<Rightarrow> (''Failed to read TCP pose (code '' @ str_int code @ '')'', s1)
                 | Some p \<Rightarrow>
                     if code \<noteq> 0 then (''Failed to read TCP pose (code '' @ str_int code @ '')'', s1)
                     else
                       (let s2 = s1\<lparr>state := (state s1)\<lparr>init_pose := Some p\<rparr>\<rparr>
                        in case set_mode_and_ready hw s2 0 of
                             ((ok, msg), s3) \<Rightarrow>
                               if \<not> ok then (''Failed to enter position mode: '' @ msg, s3)
                               else
                                 (let amp_mm = max 0 (min 200 (amplitude_cm * 10));
                                      th = (amp_mm, speed_percent, accel_percent, axis)
                                  in (''Point-to-point motion started'',
                                      s3\<lparr>stop_event := False,
                                         state := (state s3)\<lparr>playing := True,
                                           last_play_speed_pct := max 0 (min 100 speed_percent)\<rparr>,
                                         motion_thread := Some th,
                                         spawned := spawned s3 @ [th]\<rparr>))))))"

text \<open>\<open>stop_motion\<close>: phase 1 signals the thread and clears \<open>playing\<close>; phase 2, the bounded
  join, changes no field; phase 3 re-asserts position mode and moves back to the saved
  pose. Unpacking a saved pose that has not six components raises into the handler of
  phase 3.\<close>

definition stop_error :: "string \<Rightarrow> XArmController \<Rightarrow> string \<times> XArmController" where
  "stop_error e s =
     (''Stop error: '' @ e, s\<lparr>state := (state s)\<lparr>last_error := ''Stop error: '' @ e\<rparr>\<rparr>)"

text \<open>Lines 450 to 458: the move back to the saved pose, with the handler of phase 3 for
  what it raises.\<close>

definition return_to_pose :: "sdk \<Rightarrow> XArmController \<Rightarrow> real list \<Rightarrow> string \<times> XArmController" where
  "return_to_pose hw s pose =
     (let vmax = max_tcp_lin_vel_mmps (state s);
          pct = max 0 (min 100 (last_play_speed_pct (state s))) / 100;
          ret_speed = max 20 (min vmax (vmax * pct))
      in case unpack6 pose of
           Inl e \<Rightarrow> stop_error e s
         | Inr (x, y, z, rx, ry, rz) \<Rightarrow>
             (let s4 = issue (C_set_position [x, y, z, rx, ry, rz] ret_speed None True) s
              in case r_set_position hw (length (calls s)) of
                   Raises e \<Rightarrow> stop_error e s4
                 | Returns code \<Rightarrow>
                     (case check hw s4 code ''returned'' ''set_position failed'' of
                        ((ok, msg), s5) \<Rightarrow>
                          if \<not> ok then (''Stopped, return pose error: '' @ msg, s5)
                          else (''Stopped'', s5))))"

definition stop_phase1 :: "XArmController \<Rightarrow> XArmController" where
  "stop_phase1 s =
     (let s1 = (if playing (state s) then s\<lparr>stop_event := True\<rparr> else s)
      in s1\<lparr>state := (state s1)\<lparr>playing := False\<rparr>\<rparr>)"

definition stop_phase3 :: "sdk \<Rightarrow> XArmController \<Rightarrow> string \<times> XArmController" where
  "stop_phase3 hw s =
     (let s3 = (if arm s \<noteq> None then snd (set_mode_and_ready hw s 0) else s)
      in case init_pose (state s3) of
           None \<Rightarrow> (''Stopped'', s3)
         | Some pose \<Rightarrow>
             if arm s3 = None then (''Stopped'', s3) else return_to_pose hw s3 pose)"

definition stop_motion :: "sdk \<Rightarrow> XArmController \<Rightarrow> string \<times> XArmController" where
  "stop_motion hw s =
     (if \<not> connected (state s) \<or> arm s = None then (''Not connected'', s)
      else stop_phase3 hw (stop_phase1 s))"

text \<open>\<open>disconnect\<close>: the inner \<open>finally\<close> drops the handle whether or not the release
  call raises; the assignments to \<open>connected\<close> and \<open>teach_enabled\<close> follow the inner
  \<open>try\<close> and are skipped when the exception travels to the outer handler.\<close>

definition disconnect :: "sdk \<Rightarrow> XArmController \<Rightarrow> string \<times> XArmController" where
  "disconnect hw s =
     (let s0 = snd (stop_motion hw s)
      in case arm s0 of
           None \<Rightarrow>
             (''Disconnected'',
              s0\<lparr>state := (state s0)\<lparr>connected := False, teach_enabled := False,
                                     last_error := ''Disconnected''\<rparr>\<rparr>)
         | Some a \<Rightarrow>
             (let s1 = (issue C_disconnect s0)\<lparr>arm := None\<rparr>
              in case r_disconnect hw (length (calls s0)) of
                   Raises e \<Rightarrow>
                     (''Disconnect error: '' @ e,
                      s1\<lparr>state := (state s1)\<lparr>last_error := ''Disconnect error: '' @ e\<rparr>\<rparr>)
                 | Returns u \<Rightarrow>
                     (''Disconnected'',
                      s1\<lparr>state := (state s1)\<lparr>connected := False, teach_enabled := False,
                                             last_error := ''Disconnected''\<rparr>\<rparr>)))"

text \<open>\<open>str.strip()\<close>: the characters below 256 that Python counts as whitespace.\<close>

definition py_isspace :: "char \<Rightarrow> bool" where
  "py_isspace c \<longleftrightarrow>
     c \<in> set [CHR 0x09, CHR 0x0A, CHR 0x0B, CHR 0x0C, CHR 0x0D, CHR 0x1C, CHR 0x1D, CHR 0x1E,
              CHR 0x1F, CHR 0x20, CHR 0x85, CHR 0xA0]"

definition strip :: "string \<Rightarrow> string" where
  "strip t = rev (dropWhile py_isspace (rev (dropWhile py_isspace t)))"

definition connect_failed :: "string \<Rightarrow> XArmController \<Rightarrow> string \<times> XArmController" where
  "connect_failed e s =
     (''Connect failed: '' @ e,
      s\<lparr>arm := None,
        state := (state s)\<lparr>connected := False, last_error := ''Connect failed: '' @ e\<rparr>\<rparr>)"

text \<open>The two optional limit queries share one \<open>try\<close>: when the first raises, the second
  is not made.\<close>

definition query_limits :: "sdk \<Rightarrow> XArmController \<Rightarrow> XArmController" where
  "query_limits hw s =
     (let (raised, s1) =
            (if has_get_tcp_maxlin_vel hw then
               (case r_get_tcp_maxlin_vel hw (length (calls s)) of
                  Raises e \<Rightarrow> (True, issue C_get_tcp_maxlin_vel s)
                | Returns (c_v, vmax) \<Rightarrow>
                    (False,
                     (case vmax of
                        Some v \<Rightarrow>
                          if c_v = 0
                          then (issue C_get_tcp_maxlin_vel s)\<lparr>state := (state s)\<lparr>max_tcp_lin_vel_mmps := v\<rparr>\<rparr>
                          else issue C_get_tcp_maxlin_vel s
                      | None \<Rightarrow> issue C_get_tcp_maxlin_vel s)))
             else (False, s))
      in if raised \<or> \<not> has_get_tcp_maxlin_acc hw then s1
         else
           (case r_get_tcp_maxlin_acc hw (length (calls s1)) of
              Raises e \<Rightarrow> issue C_get_tcp_maxlin_acc s1
            | Returns (c_a, amax) \<Rightarrow>
                (case amax of
                   Some a \<Rightarrow>
                     if c_a = 0
                     then (issue C_get_tcp_maxlin_acc s1)\<lparr>state := (state s1)\<lparr>max_tcp_lin_acc_mmps2 := a\<rparr>\<rparr>
                     else issue C_get_tcp_maxlin_acc s1
                 | None \<Rightarrow> issue C_get_tcp_maxlin_acc s1)))"

definition cache_version :: "sdk \<Rightarrow> XArmController \<Rightarrow> XArmController" where
  "cache_version hw s =
     (case r_get_version hw (length (calls s)) of
        Raises e \<Rightarrow> issue C_get_version s
      | Returns (code, ver) \<Rightarrow>
          if code = 0 then (issue C_get_version s)\<lparr>state := (state s)\<lparr>sdk_version := Some ver\<rparr>\<rparr>
          else issue C_get_version s)"

definition connect :: "sdk \<Rightarrow> XArmController \<Rightarrow> string \<Rightarrow> string \<times> XArmController" where
  "connect hw s ip_in =
     (let ip1 = (if strip ip_in \<noteq> [] then strip ip_in else ip (state s));
          s0 = s\<lparr>state := (state s)\<lparr>ip := ip1\<rparr>\<rparr>
      in if \<not> sdk_installed hw then
           (''xArm SDK is not installed. Run: pip install xarm'',
            s0\<lparr>state := (state s0)\<lparr>last_error := ''xArm SDK is not installed. Run: pip install xarm''\<rparr>\<rparr>)
         else if connected (state s0) then (''Already connected to '' @ ip1, s0)
         else
           (case r_new hw (length (calls s0)) of
              Raises e \<Rightarrow> connect_failed e (issue (C_new ip1) s0)
            | Returns u \<Rightarrow>
                (let s1 = (issue (C_new ip1) s0)\<lparr>arm := Some (XArmAPI ip1)\<rparr>;
                     s2 = (case attr_is_radian hw of
                             Some (Returns b) \<Rightarrow> s1\<lparr>state := (state s1)\<lparr>is_radian := b\<rparr>\<rparr>
                           | _ \<Rightarrow> s1)
                 in case r_motion_enable hw (length (calls s2)) of
                      Raises e \<Rightarrow> connect_failed e (issue (C_motion_enable True) s2)
                    | Returns code \<Rightarrow>
                        (case check hw (issue (C_motion_enable True) s2) code ''motors on'' ''motion_enable failed'' of
                           ((ok, msg), s3) \<Rightarrow>
                             if \<not> ok then (msg, s3\<lparr>state := (state s3)\<lparr>last_error := msg\<rparr>\<rparr>)
                             else
                               (case set_mode_and_ready hw s3 0 of
                                  ((ok2, msg2), s4) \<Rightarrow>
                                    if \<not> ok2 then (msg2, s4\<lparr>state := (state s4)\<lparr>last_error := msg2\<rparr>\<rparr>)
                                    else
                                      (let s5 = cache_version hw (query_limits hw s4)
                                       in (''Connected to '' @ ip1,
                                           s5\<lparr>state := (state s5)\<lparr>connected := True,
                                                                  last_error := ''Connected''\<rparr>\<rparr>)))))))"

text \<open>\<open>toggle_teach\<close>: a running motion is stopped first; a failed switch into teach mode
  parks the controller in position mode.\<close>

definition toggle_teach :: "sdk \<Rightarrow> XArmController \<Rightarrow> (string \<times> string) \<times> XArmController" where
  "toggle_teach hw s =
     (if \<not> connected (state s) \<or> arm s = None then ((''Not connected'', ''Not Draggable''), s)
      else
        (let s0 = (if playing (state s) then snd (stop_motion hw s) else s)
         in if \<not> teach_enabled (state s0) then
              (case set_mode_and_ready hw s0 2 of
                 ((ok, msg), s1) \<Rightarrow>
                   if \<not> ok then
                     (let s2 = snd (set_mode_and_ready hw s1 0)
                      in ((''Teach enable failed: '' @ msg, ''Not Draggable''),
                          s2\<lparr>state := (state s2)\<lparr>teach_enabled := False\<rparr>\<rparr>))
                   else ((''Teach enabled'', ''Draggable''),
                         s1\<lparr>state := (state s1)\<lparr>teach_enabled := True\<rparr>\<rparr>))
            else
              (case set_mode_and_ready hw s0 0 of
                 ((ok, msg), s1) \<Rightarrow>
                   if \<not> ok then
                     ((''Teach disable failed: '' @ msg, ''Draggable''),
                      s1\<lparr>state := (state s1)\<lparr>teach_enabled := True\<rparr>\<rparr>)
                   else ((''Teach disabled'', ''Not Draggable''),
                         s1\<lparr>state := (state s1)\<lparr>teach_enabled := False\<rparr>\<rparr>))))"

text \<open>The states of the controller that a sequence of commands can produce, under any
  behaviour of the SDK, with the background loop run at any point.\<close>

inductive reachable :: "XArmController \<Rightarrow> bool" where
  r_init: "reachable XArmController_init"
| r_connect: "reachable s \<Longrightarrow> reachable (snd (connect hw s ip_in))"
| r_disconnect: "reachable s \<Longrightarrow> reachable (snd (disconnect hw s))"
| r_toggle_teach: "reachable s \<Longrightarrow> reachable (snd (toggle_teach hw s))"
| r_play: "reachable s \<Longrightarrow> reachable (snd (play_point_to_point hw s amplitude_cm speed_percent accel_percent axis))"
| r_stop: "reachable s \<Longrightarrow> reachable (snd (stop_motion hw s))"
| r_loop: "reachable s \<Longrightarrow> motion_thread s = Some th \<Longrightarrow> p2p_loop hw s th stops = Some (ex, s') \<Longrightarrow> reachable s'"

section \<open>app\_xarm\_memoryloop: XArmGradioController\<close>

record DetectConfig =
  motion_threshold :: real
  idle_timeout :: real
  report_hz :: real

text \<open>\<open>AppState\<close>. Its fields \<open>ip\<close> and \<open>connected\<close> are written \<open>app_ip\<close> and
  \<open>app_connected\<close> here, and the controller's \<open>arm\<close> and \<open>state\<close> are \<open>gr_arm\<close> and
  \<open>gr_state\<close>, since \<open>ArmState\<close> and \<open>XArmController\<close> above own the plain names.\<close>

record AppState =
  app_ip :: string
  app_connected :: bool
  teach_mode :: bool
  recording :: bool
  last_status :: string
  traj_filename :: string
  playback_speed :: real
  collision_sensitivity :: int
  teach_sensitivity :: int

definition AppState_init :: AppState where
  "AppState_init =
     \<lparr> app_ip = [], app_connected = False, teach_mode = False, recording = False,
       last_status = ''idle'', traj_filename = ''gradio_record'', playback_speed = 1,
       collision_sensitivity = 3, teach_sensitivity = 3 \<rparr>"

datatype playback_thread = PlaybackThread

record XArmGradioController =
  detect_cfg :: DetectConfig
  gr_arm :: "XArmAPI option"
  gr_state :: AppState
  cb_registered :: bool
  last_q :: "real list option"
  last_motion_t :: real
  record_started :: bool
  play_thread :: "playback_thread option"
  stop_play_evt :: bool
  gr_calls :: "sdk_call list"

definition XArmGradioController_init :: "DetectConfig \<Rightarrow> XArmGradioController" where
  "XArmGradioController_init cfg =
     \<lparr> detect_cfg = cfg, gr_arm = None, gr_state = AppState_init, cb_registered = False,
       last_q = None, last_motion_t = 0, record_started = False, play_thread = None,
       stop_play_evt = False, gr_calls = [] \<rparr>"

definition gr_issue :: "sdk_call \<Rightarrow> XArmGradioController \<Rightarrow> XArmGradioController" where
  "gr_issue c s = s\<lparr>gr_calls := gr_calls s @ [c]\<rparr>"

definition set_status :: "string \<Rightarrow> XArmGradioController \<Rightarrow> XArmGradioController" where
  "set_status m s = s\<lparr>gr_state := (gr_state s)\<lparr>last_status := m\<rparr>\<rparr>"

subsection \<open>Motion detection\<close>

text \<open>The report is a dictionary; the joint vector is the first truthy value among four
  keys (Python's \<open>or\<close> gives its left operand when that is truthy, else its right one),
  and a report with no truthy value is dropped.\<close>

definition py_truthy :: "real list option \<Rightarrow> bool" where
  "py_truthy v = (case v of None \<Rightarrow> False | Some [] \<Rightarrow> False | Some (x # xs) \<Rightarrow> True)"

definition py_or :: "real list option \<Rightarrow> real list option \<Rightarrow> real list option" where
  "py_or a b = (if py_truthy a then a else b)"

definition report_angles :: "(string \<rightharpoonup> real list) \<Rightarrow> real list option" where
  "report_angles data =
     (let q = py_or (py_or (py_or (data ''angles'') (data ''joint_angles'')) (data ''angle''))
                (data ''joints'')
      in if \<not> py_truthy q then None else q)"

text \<open>Python's \<open>max\<close> of an iterable raises on an empty one and otherwise keeps the first
  greatest element.\<close>

fun py_max :: "real list \<Rightarrow> real option" where
  "py_max [] = None"
| "py_max (x # xs) = Some (fold (\<lambda>y m. if m < y then y else m) xs x)"

text \<open>Lines 375 to 384: the accumulation loop for \<open>dq2\<close>, \<open>dist\<close>, \<open>max_abs\<close> and the
  verdict \<open>moved\<close>; \<open>None\<close> when \<open>max\<close> raises.\<close>

definition detect_motion :: "DetectConfig \<Rightarrow> real list \<Rightarrow> real list \<Rightarrow> bool option" where
  "detect_motion cfg q prev =
     (let dq2 = fold (\<lambda>(a, b) acc. acc + (a - b) * (a - b)) (zip q prev) 0;
          dist = sqrt dq2
      in case py_max (map (\<lambda>(a, b). \<bar>a - b\<bar>) (zip q prev)) of
           None \<Rightarrow> None
         | Some max_abs \<Rightarrow>
             Some (dist \<ge> motion_threshold cfg \<or> max_abs \<ge> motion_threshold cfg * (6 / 10)))"

definition moved_flag :: "XArmGradioController \<Rightarrow> real list \<Rightarrow> bool option" where
  "moved_flag s q =
     (case last_q s of None \<Rightarrow> Some False | Some prev \<Rightarrow> detect_motion (detect_cfg s) q prev)"

text \<open>The three \<open>try\<close> blocks of \<open>_on_report\<close>.\<close>

definition start_recording :: "sdk \<Rightarrow> XArmGradioController \<Rightarrow> XArmGradioController" where
  "start_recording hw s =
     (case gr_arm s of
        None \<Rightarrow>
          s\<lparr>gr_state := (gr_state s)\<lparr>recording := True, last_status := ''recording''\<rparr>,
            record_started := True\<rparr>
      | Some a \<Rightarrow>
          (let s1 = gr_issue C_start_record_trajectory s
           in case r_start_record_trajectory hw (length (gr_calls s)) of
                Raises e \<Rightarrow> set_status ''record:start failed'' s1
              | Returns c \<Rightarrow>
                  s1\<lparr>gr_state := (gr_state s1)\<lparr>recording := True, last_status := ''recording''\<rparr>,
                     record_started := True\<rparr>))"

definition stop_and_save :: "sdk \<Rightarrow> XArmGradioController \<Rightarrow> XArmGradioController" where
  "stop_and_save hw s =
     (case gr_arm s of
        None \<Rightarrow>
          s\<lparr>gr_state := (gr_state s)\<lparr>recording := False, last_status := ''idle''\<rparr>,
            record_started := False\<rparr>
      | Some a \<Rightarrow>
          (let s1 = gr_issue (C_stop_record_trajectory (Some (traj_filename (gr_state s)))) s
           in case r_stop_record_trajectory hw (length (gr_calls s)) of
                Raises e \<Rightarrow> set_status ''record:save failed'' s1
              | Returns c \<Rightarrow>
                  s1\<lparr>gr_state := (gr_state s1)\<lparr>recording := False, last_status := ''idle''\<rparr>,
                     record_started := False\<rparr>))"

definition unregister_callback :: "XArmGradioController \<Rightarrow> XArmGradioController" where
  "unregister_callback s =
     (if cb_registered s
      then (gr_issue (C_register_report_callback Noop) s)\<lparr>cb_registered := False\<rparr>
      else s)"

definition auto_exit_teach :: "sdk \<Rightarrow> XArmGradioController \<Rightarrow> XArmGradioController" where
  "auto_exit_teach hw s =
     (case gr_arm s of
        None \<Rightarrow> s\<lparr>gr_state := (gr_state s)\<lparr>teach_mode := False\<rparr>\<rparr>
      | Some a \<Rightarrow>
          (let s1 = gr_issue (C_set_mode 0) s
           in case r_set_mode hw (length (gr_calls s)) of
                Raises e \<Rightarrow> s1
              | Returns c \<Rightarrow>
                  (let s2 = gr_issue (C_set_state 0) s1
                   in case r_set_state hw (length (gr_calls s1)) of
                        Raises e \<Rightarrow> s2
                      | Returns c2 \<Rightarrow>
                          (let s3 = unregister_callback s2
                           in s3\<lparr>gr_state := (gr_state s3)\<lparr>teach_mode := False\<rparr>\<rparr>))))"

text \<open>\<open>_on_report\<close>, with the clock reading \<open>now\<close> as an input. An exception raised before
  \<open>_last_q\<close> is assigned leaves every field as it was.\<close>

definition on_report :: "sdk \<Rightarrow> real \<Rightarrow> (string \<rightharpoonup> real list) \<Rightarrow> XArmGradioController \<Rightarrow> XArmGradioController" where
  "on_report hw now data s =
     (case report_angles data of
        None \<Rightarrow> s
      | Some q \<Rightarrow>
          (case moved_flag s q of
             None \<Rightarrow> s
           | Some moved \<Rightarrow>
               (let s1 = s\<lparr>last_q := Some q\<rparr>
                in if \<not> teach_mode (gr_state s1) then set_status ''idle'' s1
                   else if moved then
                     (let s2 = s1\<lparr>last_motion_t := now\<rparr>
                      in if \<not> record_started s2 then start_recording hw s2 else s2)
                   else if record_started s1 \<and> now - last_motion_t s1 \<ge> idle_timeout (detect_cfg s1)
                     then auto_exit_teach hw (stop_and_save hw s1)
                   else s1)))"

fun run_reports :: "sdk \<Rightarrow> XArmGradioController \<Rightarrow> (real \<times> (string \<rightharpoonup> real list)) list \<Rightarrow> XArmGradioController" where
  "run_reports hw s [] = s"
| "run_reports hw s ((now, data) # ticks) = run_reports hw (on_report hw now data s) ticks"

subsection \<open>Commands\<close>

text \<open>Whether the playback thread is still alive is decided by the thread, not by the
  command: it is the input \<open>alive\<close>.\<close>

definition stop_playback_thread :: "bool \<Rightarrow> XArmGradioController \<Rightarrow> XArmGradioController" where
  "stop_playback_thread alive s =
     (let s1 = (if play_thread s \<noteq> None \<and> alive then s\<lparr>stop_play_evt := True\<rparr> else s)
      in s1\<lparr>play_thread := None\<rparr>)"

definition ensure_report_callback :: "sdk \<Rightarrow> XArmGradioController \<Rightarrow> XArmGradioController" where
  "ensure_report_callback hw s =
     (if gr_arm s = None then s
      else if cb_registered s then s
      else
        (case r_register_report_callback hw (length (gr_calls s)) of
           Raises e \<Rightarrow> (gr_issue (C_register_report_callback OnReport) s)\<lparr>cb_registered := False\<rparr>
         | Returns u \<Rightarrow> (gr_issue (C_register_report_callback OnReport) s)\<lparr>cb_registered := True\<rparr>))"

definition gr_connect_failed :: "string \<Rightarrow> XArmGradioController \<Rightarrow> (string \<times> bool) \<times> XArmGradioController" where
  "gr_connect_failed e s =
     ((''connect failed: '' @ e, False),
      s\<lparr>gr_arm := None, gr_state := (gr_state s)\<lparr>app_connected := False\<rparr>\<rparr>)"

definition gr_connect :: "sdk \<Rightarrow> XArmGradioController \<Rightarrow> string \<Rightarrow> (string \<times> bool) \<times> XArmGradioController" where
  "gr_connect hw s ip_in =
     (if \<not> sdk_installed hw then ((''xarm-python-sdk not installed'', False), s)
      else if gr_arm s \<noteq> None then ((''already connected'', True), s)
      else
        (case r_new hw (length (gr_calls s)) of
           Raises e \<Rightarrow> gr_connect_failed e (gr_issue (C_new ip_in) s)
         | Returns u \<Rightarrow>
             (let s1 = (gr_issue (C_new ip_in) s)\<lparr>gr_arm := Some (XArmAPI ip_in)\<rparr>;
                  s2 = gr_issue (C_motion_enable True) (s1\<lparr>gr_state := (gr_state s1)\<lparr>app_ip := ip_in\<rparr>\<rparr>)
              in case r_motion_enable hw (length (gr_calls s1)) of
                   Raises e \<Rightarrow> gr_connect_failed e s2
                 | Returns c1 \<Rightarrow>
                     (let s3 = gr_issue (C_set_mode 0) s2
                      in case r_set_mode hw (length (gr_calls s2)) of
                           Raises e \<Rightarrow> gr_connect_failed e s3
                         | Returns c2 \<Rightarrow>
                             (let s4 = gr_issue (C_set_state 0) s3
                              in case r_set_state hw (length (gr_calls s3)) of
                                   Raises e \<Rightarrow> gr_connect_failed e s4
                                 | Returns c3 \<Rightarrow>
                                     (let s5 = gr_issue (C_set_collision_sensitivity
                                                  (collision_sensitivity (gr_state s4))) s4;
                                          s6 = (if has_set_teach_sensitivity hw
                                                then gr_issue (C_set_teach_sensitivity
                                                       (teach_sensitivity (gr_state s5))) s5
                                                else s5)
                                      in ((''connected'', True),
                                          s6\<lparr>gr_state := (gr_state s6)\<lparr>app_connected := True,
                                                last_status := ''connected''\<rparr>\<rparr>)))))))"

text \<open>\<open>disconnect\<close>: every SDK call is in a \<open>try\<close> of its own and the field updates are in
  the \<open>finally\<close> clause. In teach mode \<open>set_state\<close> is skipped when \<open>set_mode\<close> raises.\<close>

definition gr_disconnect :: "sdk \<Rightarrow> bool \<Rightarrow> XArmGradioController \<Rightarrow> (string \<times> bool) \<times> XArmGradioController" where
  "gr_disconnect hw alive s =
     (let s1 = stop_playback_thread alive s;
          s2 = (if gr_arm s1 \<noteq> None \<and> recording (gr_state s1)
                then gr_issue (C_stop_record_trajectory None) s1 else s1);
          s3 = (if gr_arm s2 \<noteq> None \<and> cb_registered s2
                then (gr_issue (C_register_report_callback Noop) s2)\<lparr>cb_registered := False\<rparr>
                else s2);
          s4 = (if gr_arm s3 \<noteq> None \<and> teach_mode (gr_state s3)
                then (case r_set_mode hw (length (gr_calls s3)) of
                        Raises e \<Rightarrow> gr_issue (C_set_mode 0) s3
                      | Returns c \<Rightarrow> gr_issue (C_set_state 0) (gr_issue (C_set_mode 0) s3))
                else s3);
          s5 = (if gr_arm s4 \<noteq> None then gr_issue C_disconnect s4 else s4)
      in ((''disconnected'', False),
          s5\<lparr>gr_arm := None,
             gr_state := (gr_state s5)\<lparr>app_connected := False, teach_mode := False,
                                      recording := False, last_status := ''disconnected''\<rparr>\<rparr>))"

definition gr_toggle_teach :: "sdk \<Rightarrow> XArmGradioController \<Rightarrow> bool \<Rightarrow> string \<times> XArmGradioController" where
  "gr_toggle_teach hw s enable =
     (if gr_arm s = None then (''not connected'', s)
      else if enable then
        (let s1 = gr_issue (C_set_mode 2) s
         in case r_set_mode hw (length (gr_calls s)) of
              Raises e \<Rightarrow> (''teach toggle failed: '' @ e, s1)
            | Returns c \<Rightarrow>
                (let s2 = gr_issue (C_set_state 0) s1
                 in case r_set_state hw (length (gr_calls s1)) of
                      Raises e \<Rightarrow> (''teach toggle failed: '' @ e, s2)
                    | Returns c2 \<Rightarrow>
                        (let s3 = ensure_report_callback hw s2
                         in (''waiting'',
                             s3\<lparr>gr_state := (gr_state s3)\<lparr>teach_mode := True,
                                                         last_status := ''waiting''\<rparr>\<rparr>))))
      else
        (let s0 = (if recording (gr_state s)
                   then (gr_issue (C_stop_record_trajectory None) s)
                          \<lparr>gr_state := (gr_state s)\<lparr>recording := False\<rparr>, record_started := False\<rparr>
                   else s);
             s1 = gr_issue (C_set_mode 0) s0
         in case r_set_mode hw (length (gr_calls s0)) of
              Raises e \<Rightarrow> (''teach toggle failed: '' @ e, s1)
            | Returns c \<Rightarrow>
                (let s2 = gr_issue (C_set_state 0) s1
                 in case r_set_state hw (length (gr_calls s1)) of
                      Raises e \<Rightarrow> (''teach toggle failed: '' @ e, s2)
                    | Returns c2 \<Rightarrow>
                        (let s3 = unregister_callback s2
                         in (''idle'',
                             s3\<lparr>gr_state := (gr_state s3)\<lparr>teach_mode := False,
                                                         last_status := ''idle''\<rparr>\<rparr>)))))"

definition start_playback :: "bool \<Rightarrow> XArmGradioController \<Rightarrow> real \<Rightarrow> string \<times> XArmGradioController" where
  "start_playback alive s ui_speed =
     (if gr_arm s = None then (''not connected'', s)
      else if play_thread s \<noteq> None \<and> alive then (''playback already running'', s)
      else
        (''play:start'',
         s\<lparr>gr_state := (gr_state s)\<lparr>playback_speed := max 0 (min 5 ui_speed),
                                    last_status := ''play:start''\<rparr>,
           stop_play_evt := False,
           play_thread := Some PlaybackThread\<rparr>))"

definition stop_playback :: "bool \<Rightarrow> XArmGradioController \<Rightarrow> string \<times> XArmGradioController" where
  "stop_playback alive s = (''play:stop'', set_status ''play:stop'' (stop_playback_thread alive s))"

section \<open>Measures and sample inputs\<close>


text \<open>An SDK on which every call succeeds, and the controller it leaves connected.\<close>

definition sdk_nominal :: sdk where
  "sdk_nominal =
     \<lparr> sdk_installed = True, attr_is_radian = Some (Returns True),
       has_get_err_warn_code = True, has_clean_error = True, has_clean_warn = True,
       has_get_tcp_maxlin_vel = True, has_get_tcp_maxlin_acc = True,
       has_set_teach_sensitivity = True,
       r_new = (\<lambda>n. Returns ()),
       r_motion_enable = (\<lambda>n. Returns 0),
       r_set_mode = (\<lambda>n. Returns 0),
       r_set_state = (\<lambda>n. Returns 0),
       r_get_err_warn_code = (\<lambda>n. Returns (0, 0, 0)),
       r_clean_error = (\<lambda>n. Returns ()),
       r_clean_warn = (\<lambda>n. Returns ()),
       r_get_tcp_maxlin_vel = (\<lambda>n. Returns (0, Some 1000)),
       r_get_tcp_maxlin_acc = (\<lambda>n. Returns (0, Some 50000)),
       r_get_version = (\<lambda>n. Returns (0, ''v2.4.0'')),
       r_get_position = (\<lambda>n. Returns (0, Some [300, 0, 200, 0, 0, 0])),
       r_set_position = (\<lambda>n. Returns 0),
       r_set_tcp_jerk = (\<lambda>n. Returns ()),
       r_disconnect = (\<lambda>n. Returns ()),
       r_set_collision_sensitivity = (\<lambda>n. Returns 0),
       r_set_teach_sensitivity = (\<lambda>n. Returns 0),
       r_start_record_trajectory = (\<lambda>n. Returns 0),
       r_stop_record_trajectory = (\<lambda>n. Returns 0),
       r_register_report_callback = (\<lambda>n. Returns ()) \<rparr>"

definition ctrl_connected :: XArmController where
  "ctrl_connected = snd (connect sdk_nominal XArmController_init [])"

definition ctrl_playing :: XArmController where
  "ctrl_playing = snd (play_point_to_point sdk_nominal ctrl_connected 50 50 50 ''z'')"

text \<open>SDKs on which one call raises: the move command, and the release of the link.\<close>

definition sdk_move_fails :: sdk where
  "sdk_move_fails = sdk_nominal\<lparr>r_set_position := (\<lambda>n. Raises ''move failed'')\<rparr>"

definition sdk_release_fails :: sdk where
  "sdk_release_fails = sdk_nominal\<lparr>r_disconnect := (\<lambda>n. Raises ''link down'')\<rparr>"

text \<open>Two controllers that differ at most in the trace of SDK calls, and at most in the
  trace and the \<open>last_error\<close> text.\<close>

definition same_fields :: "XArmController \<Rightarrow> XArmController \<Rightarrow> bool" where
  "same_fields s s' \<longleftrightarrow>
     arm s' = arm s \<and> state s' = state s \<and> stop_event s' = stop_event s \<and>
     motion_thread s' = motion_thread s \<and> spawned s' = spawned s"

definition same_but_error :: "XArmController \<Rightarrow> XArmController \<Rightarrow> bool" where
  "same_but_error s s' \<longleftrightarrow>
     arm s' = arm s \<and> (\<exists>e. state s' = (state s)\<lparr>last_error := e\<rparr>) \<and>
     stop_event s' = stop_event s \<and> motion_thread s' = motion_thread s \<and> spawned s' = spawned s"

text \<open>The link invariant of the command interface: a session that is playing is connected
  and holds a handle.\<close>

definition link_inv :: "XArmController \<Rightarrow> bool" where
  "link_inv s \<longleftrightarrow> (playing (state s) \<longrightarrow> connected (state s) \<and> arm s \<noteq> None)"

text \<open>The three shapes of the text that \<open>stop_motion\<close> returns on a live session.\<close>

definition stop_status :: "string \<Rightarrow> bool" where
  "stop_status m \<longleftrightarrow> m = ''Stopped'' \<or> (\<exists>x. m = ''Stopped, return pose error: '' @ x) \<or>
     (\<exists>e. m = ''Stop error: '' @ e)"

text \<open>An SDK whose pose read succeeds with three components only, and the test for a move
  command in the trace.\<close>

definition sdk_short_pose :: sdk where
  "sdk_short_pose = sdk_nominal\<lparr>r_get_position := (\<lambda>n. Returns (0, Some [300, 0, 200]))\<rparr>"

fun is_move :: "sdk_call \<Rightarrow> bool" where
  "is_move (C_set_position p v a w) = True"
| "is_move c = False"

subsection \<open>The detector, in the words of the specification\<close>

text \<open>The per-joint deltas of two consecutive reports, their Euclidean norm \<open>dist\<close>, their
  greatest absolute value \<open>max_abs\<close>, and the dual criterion
  \<open>dist \<ge> motion_threshold OR max_abs \<ge> 0.6 \<cdot> motion_threshold\<close>. These are written from
  the specification, to be compared with \<open>detect_motion\<close>, which follows the code.\<close>

definition joint_deltas :: "real list \<Rightarrow> real list \<Rightarrow> real list" where
  "joint_deltas q prev = map (\<lambda>(a, b). a - b) (zip q prev)"

definition spec_dist :: "real list \<Rightarrow> real list \<Rightarrow> real" where
  "spec_dist q prev = sqrt (\<Sum>d\<leftarrow>joint_deltas q prev. d\<^sup>2)"

definition spec_max_abs :: "real list \<Rightarrow> real list \<Rightarrow> real" where
  "spec_max_abs q prev = Max (set (map abs (joint_deltas q prev)))"

definition spec_moved :: "DetectConfig \<Rightarrow> real list \<Rightarrow> real list \<Rightarrow> bool" where
  "spec_moved cfg q prev \<longleftrightarrow>
     spec_dist q prev \<ge> motion_threshold cfg \<or> spec_max_abs q prev \<ge> (6 / 10) * motion_threshold cfg"

text \<open>A sequence of reports in which every tick that carries a joint vector stays below
  both bounds with respect to the vector before it (\<open>prev\<close> is the vector before the
  first tick, if there is one).\<close>

fun below_bounds :: "DetectConfig \<Rightarrow> real list option \<Rightarrow> (real \<times> (string \<rightharpoonup> real list)) list \<Rightarrow> bool" where
  "below_bounds cfg prev [] = True"
| "below_bounds cfg prev ((now, data) # ticks) =
     (case report_angles data of
        None \<Rightarrow> below_bounds cfg prev ticks
      | Some q \<Rightarrow>
          (case prev of
             None \<Rightarrow> True
           | Some p \<Rightarrow> spec_dist q p < motion_threshold cfg \<and>
                       spec_max_abs q p < (6 / 10) * motion_threshold cfg) \<and>
          below_bounds cfg (Some q) ticks)"

text \<open>The stop-and-save commands in a trace, and the invariant (b) of the specification:
  the recording flag is set only in teach mode.\<close>

fun is_save :: "sdk_call \<Rightarrow> bool" where
  "is_save (C_stop_record_trajectory (Some name)) = True"
| "is_save c = False"

definition rec_inv :: "XArmGradioController \<Rightarrow> bool" where
  "rec_inv s \<longleftrightarrow> (recording (gr_state s) \<longrightarrow> teach_mode (gr_state s))"

subsection \<open>Sample sessions of the teach recorder\<close>

definition DetectConfig_default :: DetectConfig where
  "DetectConfig_default = \<lparr> motion_threshold = 15 / 1000, idle_timeout = 1, report_hz = 100 \<rparr>"

definition angles_report :: "real list \<Rightarrow> (string \<rightharpoonup> real list)" where
  "angles_report q = [''angles'' \<mapsto> q]"

text \<open>Connected; then in teach mode; then after a first report; then after a second report
  that moved joint 1 by one radian, which started a recording at time 1.\<close>

definition gr_connected :: XArmGradioController where
  "gr_connected = snd (gr_connect sdk_nominal (XArmGradioController_init DetectConfig_default) ''192.168.1.221'')"

definition gr_teaching :: XArmGradioController where
  "gr_teaching = snd (gr_toggle_teach sdk_nominal gr_connected True)"

definition gr_sampled :: XArmGradioController where
  "gr_sampled = on_report sdk_nominal 0 (angles_report [0, 0, 0, 0, 0, 0]) gr_teaching"

definition gr_recording :: XArmGradioController where
  "gr_recording = on_report sdk_nominal 1 (angles_report [1, 0, 0, 0, 0, 0]) gr_sampled"

text \<open>The same session disconnected in the middle of that recording, and then connected
  again and put back into teach mode.\<close>

definition gr_dropped :: XArmGradioController where
  "gr_dropped = snd (gr_disconnect sdk_nominal False gr_recording)"

definition gr_reconnected :: XArmGradioController where
  "gr_reconnected =
     snd (gr_toggle_teach sdk_nominal (snd (gr_connect sdk_nominal gr_dropped ''192.168.1.221'')) True)"

text \<open>SDKs on which saving the recording raises, and on which the mode switch raises too.\<close>

definition sdk_save_fails :: sdk where
  "sdk_save_fails = sdk_nominal\<lparr>r_stop_record_trajectory := (\<lambda>n. Raises ''save failed'')\<rparr>"


section \<open>Geometry of the endpoints\<close>

lemma col0_unit:
  "cz * cz + sz * sz = 1 \<Longrightarrow> cy * cy + sy * sy = 1 \<Longrightarrow>
   (cz * cy) * (cz * cy) + (sz * cy) * (sz * cy) + (- sy) * (- sy) = (1::real)"
  by algebra

lemma col1_unit:
  "cz * cz + sz * sz = 1 \<Longrightarrow> cy * cy + sy * sy = 1 \<Longrightarrow> cx * cx + sx * sx = 1 \<Longrightarrow>
   (cz * sy * sx - sz * cx) * (cz * sy * sx - sz * cx)
    + (sz * sy * sx + cz * cx) * (sz * sy * sx + cz * cx)
    + (cy * sx) * (cy * sx) = (1::real)"
  by algebra

lemma col2_unit:
  "cz * cz + sz * sz = 1 \<Longrightarrow> cy * cy + sy * sy = 1 \<Longrightarrow> cx * cx + sx * sx = 1 \<Longrightarrow>
   (cz * sy * cx + sz * sx) * (cz * sy * cx + sz * sx)
    + (sz * sy * cx - cz * sx) * (sz * sy * cx - cz * sx)
    + (cy * cx) * (cy * cx) = (1::real)"
  by algebra

lemma cos_sin_one: "cos a * cos a + sin a * sin a = (1::real)"
  using sin_cos_squared_add2[of a] by (simp add: power2_eq_square)

lemma norm_floor_unit:
  assumes "fx * fx + fy * fy + fz * fz = (1::real)"
  shows "max (1 / 10 ^ 9) (sqrt (fx * fx + fy * fy + fz * fz)) = 1"
  using assms by simp

text \<open>Each column of the matrix has length one, so the floor \<open>1e-9\<close> never applies and the
  normalised vector is the column itself.\<close>

lemma axis_direction_unit:
  assumes "col < 3" and "axis_direction (rpy_to_rot rx ry rz r) col = (fx, fy, fz)"
  shows "fx * fx + fy * fy + fz * fz = 1"
proof -
  define ax where "ax = (if \<not> r then radians rx else rx)"
  define ay where "ay = (if \<not> r then radians ry else ry)"
  define az where "az = (if \<not> r then radians rz else rz)"
  have R: "rpy_to_rot rx ry rz r =
     [[cos az * cos ay, cos az * sin ay * sin ax - sin az * cos ax, cos az * sin ay * cos ax + sin az * sin ax],
      [sin az * cos ay, sin az * sin ay * sin ax + cos az * cos ax, sin az * sin ay * cos ax - cos az * sin ax],
      [- sin ay, cos ay * sin ax, cos ay * cos ax]]"
    by (simp add: rpy_to_rot_def Let_def ax_def ay_def az_def)
  from assms(1) consider "col = 0" | "col = 1" | "col = 2" by linarith
  then show ?thesis
  proof cases
    case 1
    have n: "max (1 / 10 ^ 9) (sqrt ((cos az * cos ay) * (cos az * cos ay)
       + (sin az * cos ay) * (sin az * cos ay) + (- sin ay) * (- sin ay))) = 1"
      by (rule norm_floor_unit) (rule col0_unit[OF cos_sin_one cos_sin_one])
    from assms(2) show ?thesis
      unfolding axis_direction_def R Let_def 1
      using n col0_unit[OF cos_sin_one[of az] cos_sin_one[of ay]] by auto
  next
    case 2
    have n: "max (1 / 10 ^ 9) (sqrt ((cos az * sin ay * sin ax - sin az * cos ax) * (cos az * sin ay * sin ax - sin az * cos ax)
       + (sin az * sin ay * sin ax + cos az * cos ax) * (sin az * sin ay * sin ax + cos az * cos ax)
       + (cos ay * sin ax) * (cos ay * sin ax))) = 1"
      by (rule norm_floor_unit) (rule col1_unit[OF cos_sin_one cos_sin_one cos_sin_one])
    from assms(2) show ?thesis
      unfolding axis_direction_def R Let_def 2
      using n col1_unit[OF cos_sin_one[of az] cos_sin_one[of ay] cos_sin_one[of ax]] by auto
  next
    case 3
    have n: "max (1 / 10 ^ 9) (sqrt ((cos az * sin ay * cos ax + sin az * sin ax) * (cos az * sin ay * cos ax + sin az * sin ax)
       + (sin az * sin ay * cos ax - cos az * sin ax) * (sin az * sin ay * cos ax - cos az * sin ax)
       + (cos ay * cos ax) * (cos ay * cos ax))) = 1"
      by (rule norm_floor_unit) (rule col2_unit[OF cos_sin_one cos_sin_one cos_sin_one])
    from assms(2) show ?thesis
      unfolding axis_direction_def R Let_def 3
      using n col2_unit[OF cos_sin_one[of az] cos_sin_one[of ay] cos_sin_one[of ax]] by auto
  qed
qed

lemma tool_axis_col_lt3: "tool_axis_col axis = Inr col \<Longrightarrow> col < 3"
  by (auto simp: tool_axis_col_def Let_def split: if_splits)

lemma tool_axis_col_valid:
  "axis \<in> {''x'', ''y'', ''z'', ''X'', ''Y'', ''Z''} \<Longrightarrow> \<exists>col. tool_axis_col axis = Inr col"
  by (auto simp: tool_axis_col_def lower_char_def)

lemma unpack6_six: "unpack6 [x, y, z, rx, ry, rz] = Inr (x, y, z, rx, ry, rz)"
  by (simp add: unpack6_def)


lemma p2p_endpoints_six:
  assumes "tool_axis_col axis = Inr col"
    and "axis_direction (rpy_to_rot rx ry rz r) col = (fx, fy, fz)"
  shows "p2p_endpoints [x, y, z, rx, ry, rz] r axis amp =
      Inr ([x - fx * half_amp amp, y - fy * half_amp amp, z - fz * half_amp amp, rx, ry, rz],
           [x + fx * half_amp amp, y + fy * half_amp amp, z + fz * half_amp amp, rx, ry, rz])"
  using assms by (simp add: p2p_endpoints_def unpack6_six Let_def)



text \<open>
  C4. For a six-component centre pose and a tool axis among x, y, z (in either case),
  the planner returns two endpoints whose midpoint is the centre in every component,
  the vector along which they are offset has length one, the endpoints differ by the
  full amplitude times that vector, and both keep the centre's orientation.
\<close>

theorem C4_endpoints_centered:
  assumes "axis \<in> {''x'', ''y'', ''z'', ''X'', ''Y'', ''Z''}"
  shows "\<exists>lo hi col fx fy fz.
      p2p_endpoints [x, y, z, rx, ry, rz] is_rad axis amp = Inr (lo, hi) \<and>
      length lo = 6 \<and> length hi = 6 \<and>
      (\<forall>i<6. (lo ! i + hi ! i) / 2 = [x, y, z, rx, ry, rz] ! i) \<and>
      tool_axis_col axis = Inr col \<and>
      axis_direction (rpy_to_rot rx ry rz is_rad) col = (fx, fy, fz) \<and>
      fx * fx + fy * fy + fz * fz = 1 \<and>
      (\<forall>i<3. hi ! i - lo ! i = 2 * half_amp amp * [fx, fy, fz] ! i) \<and>
      drop 3 lo = [rx, ry, rz] \<and> drop 3 hi = [rx, ry, rz]"
proof -
  from assms obtain col where c: "tool_axis_col axis = Inr col"
    using tool_axis_col_valid by blast
  obtain fx fy fz where d: "axis_direction (rpy_to_rot rx ry rz is_rad) col = (fx, fy, fz)"
    by (cases "axis_direction (rpy_to_rot rx ry rz is_rad) col") auto
  have u: "fx * fx + fy * fy + fz * fz = 1"
    using axis_direction_unit[OF tool_axis_col_lt3[OF c] d] .
  let ?lo = "[x - fx * half_amp amp, y - fy * half_amp amp, z - fz * half_amp amp, rx, ry, rz]"
  let ?hi = "[x + fx * half_amp amp, y + fy * half_amp amp, z + fz * half_amp amp, rx, ry, rz]"
  have e: "p2p_endpoints [x, y, z, rx, ry, rz] is_rad axis amp = Inr (?lo, ?hi)"
    by (rule p2p_endpoints_six[OF c d])
  have m: "\<forall>i<6. (?lo ! i + ?hi ! i) / 2 = [x, y, z, rx, ry, rz] ! i"
    by (auto simp: less_Suc_eq numeral_eq_Suc)
  have o: "\<forall>i<3. ?hi ! i - ?lo ! i = 2 * half_amp amp * [fx, fy, fz] ! i"
    by (auto simp: less_Suc_eq numeral_eq_Suc)
  show ?thesis
    using e m o c d u
    by (intro exI[of _ ?lo] exI[of _ ?hi] exI[of _ col] exI[of _ fx] exI[of _ fy] exI[of _ fz]) simp
qed

theorem C4_endpoints_centered_witness:
  "''z'' \<in> {''x'', ''y'', ''z'', ''X'', ''Y'', ''Z''} \<and>
   (\<exists>lo hi col fx fy fz.
      p2p_endpoints [300, 0, 200, 0, 0, 0] True ''z'' 200 = Inr (lo, hi) \<and>
      length lo = 6 \<and> length hi = 6 \<and>
      (\<forall>i<6. (lo ! i + hi ! i) / 2 = [300, 0, 200, 0, 0, 0] ! i) \<and>
      tool_axis_col ''z'' = Inr col \<and>
      axis_direction (rpy_to_rot 0 0 0 True) col = (fx, fy, fz) \<and>
      fx * fx + fy * fy + fz * fz = 1 \<and>
      (\<forall>i<3. hi ! i - lo ! i = 2 * half_amp 200 * [fx, fy, fz] ! i) \<and>
      drop 3 lo = [0, 0, 0] \<and> drop 3 hi = [0, 0, 0])"
proof -
  have h: "''z'' \<in> {''x'', ''y'', ''z'', ''X'', ''Y'', ''Z''}" by simp
  from C4_endpoints_centered[OF h, of 300 0 200 0 0 0 True 200] h show ?thesis by blast
qed

section \<open>The amplitude clamp\<close>

lemma ctrl_connected_eq:
  "ctrl_connected =
     \<lparr> arm = Some (XArmAPI ''192.168.1.221''),
       state = \<lparr> connected = True, ip = ''192.168.1.221'', teach_enabled = False, playing = False,
         init_pose = None, sdk_version = Some ''v2.4.0'', last_error = ''Connected'',
         max_tcp_lin_vel_mmps = 1000, max_tcp_lin_acc_mmps2 = 50000,
         last_play_speed_pct = 50, is_radian = True \<rparr>,
       stop_event = False, motion_thread = None, spawned = [],
       calls = [C_new ''192.168.1.221'', C_motion_enable True, C_set_mode 0, C_set_state 0,
                C_get_tcp_maxlin_vel, C_get_tcp_maxlin_acc, C_get_version] \<rparr>"
  by (simp add: ctrl_connected_def connect_def sdk_nominal_def XArmController_init_def
      ArmState_init_def strip_def issue_def check_def set_mode_and_ready_def query_limits_def
      cache_version_def Let_def)

lemma play_nominal:
  "play_point_to_point sdk_nominal ctrl_connected 50 50 50 ''z'' =
     (''Point-to-point motion started'',
      ctrl_connected\<lparr>stop_event := False,
        state := (state ctrl_connected)\<lparr>init_pose := Some [300, 0, 200, 0, 0, 0], playing := True,
                     last_play_speed_pct := 50\<rparr>,
        motion_thread := Some (200, 50, 50, ''z''),
        spawned := [(200, 50, 50, ''z'')],
        calls := calls ctrl_connected @ [C_get_position, C_set_mode 0, C_set_state 0]\<rparr>)"
  by (simp add: ctrl_connected_eq play_point_to_point_def sdk_nominal_def
      issue_def check_def set_mode_and_ready_def Let_def)


lemma play_started_thread:
  assumes "play_point_to_point hw s a sp ac axis = (''Point-to-point motion started'', s')"
  shows "motion_thread s' = Some (max 0 (min 200 (a * 10)), sp, ac, axis)"
  using assms
  by (auto simp: play_point_to_point_def Let_def split: if_splits outcome.splits option.splits prod.splits)



section \<open>Stopping and disconnecting\<close>

lemma same_fields_refl: "same_fields s s"
  by (simp add: same_fields_def)

lemma same_fields_trans: "same_fields s s' \<Longrightarrow> same_fields s' s'' \<Longrightarrow> same_fields s s''"
  by (simp add: same_fields_def)

lemma same_fields_issue: "same_fields s (issue c s)"
  by (simp add: same_fields_def issue_def)

lemma same_fields_clean_codes: "same_fields s (clean_codes hw s)"
  by (simp add: same_fields_def clean_codes_def issue_def Let_def)

lemma check_frame: "check hw s code a b = (r, s') \<Longrightarrow> same_fields s s'"
  using same_fields_clean_codes[of "issue C_get_err_warn_code s" hw]
  by (auto simp: check_def same_fields_def issue_def split: if_splits outcome.splits prod.splits)


lemma set_mode_and_ready_frame:
  assumes "set_mode_and_ready hw s m = (r, s')"
  shows "same_fields s s'"
proof (cases "arm s = None")
  case True
  with assms show ?thesis by (simp add: set_mode_and_ready_def same_fields_def)
next
  case False
  then obtain a where A: "arm s = Some a" by auto
  show ?thesis
  proof (cases "r_set_mode hw (length (calls s))")
    case (Raises e)
    with A assms have "s' = issue (C_set_mode m) s"
      by (simp add: set_mode_and_ready_def)
    then show ?thesis by (simp add: same_fields_issue)
  next
    case (Returns code)
    obtain r1 s1 where c1: "check hw (issue (C_set_mode m) s) code (''mode='' @ str_int m) ''set_mode failed'' = (r1, s1)"
      by (cases "check hw (issue (C_set_mode m) s) code (''mode='' @ str_int m) ''set_mode failed''")
    have f1: "same_fields s s1"
      using same_fields_trans[OF same_fields_issue check_frame[OF c1]] .
    show ?thesis
    proof (cases "fst r1")
      case ok: False
      with A Returns c1 assms have "s' = s1"
        by (cases r1) (simp add: set_mode_and_ready_def)
      with f1 show ?thesis by simp
    next
      case ok: True
      show ?thesis
      proof (cases "r_set_state hw (length (calls s1))")
        case r2: (Raises e)
        with ok A Returns c1 assms have "s' = issue (C_set_state 0) s1"
          by (cases r1) (simp add: set_mode_and_ready_def)
        with f1 show ?thesis using same_fields_trans[OF f1 same_fields_issue] by simp
      next
        case r2: (Returns code2)
        with ok A Returns c1 assms
        have "check hw (issue (C_set_state 0) s1) code2 ''ready'' ''set_state failed'' = (r, s')"
          by (cases r1) (simp add: set_mode_and_ready_def)
        from check_frame[OF this] have "same_fields (issue (C_set_state 0) s1) s'" .
        then show ?thesis
          using same_fields_trans[OF f1 same_fields_trans[OF same_fields_issue]] by blast
      qed
    qed
  qed
qed


lemma same_but_error_of_same: "same_fields s s' \<Longrightarrow> same_but_error s s'"
  unfolding same_fields_def same_but_error_def
  by (auto intro: exI[of _ "last_error (state s)"])

lemma same_but_error_trans: "same_but_error s s' \<Longrightarrow> same_but_error s' s'' \<Longrightarrow> same_but_error s s''"
  unfolding same_but_error_def by auto

lemma same_but_error_fields:
  assumes "same_but_error s s'"
  shows "arm s' = arm s" "connected (state s') = connected (state s)"
    "playing (state s') = playing (state s)" "teach_enabled (state s') = teach_enabled (state s)"
    "init_pose (state s') = init_pose (state s)" "motion_thread s' = motion_thread s"
    "spawned s' = spawned s" "stop_event s' = stop_event s"
  using assms unfolding same_but_error_def by auto

lemma stop_error_frame: "stop_error e s = (m, s') \<Longrightarrow> same_but_error s s' \<and> m = ''Stop error: '' @ e"
  unfolding stop_error_def same_but_error_def by auto

lemma return_to_pose_frame:
  assumes "return_to_pose hw s pose = (m, s')"
  shows "same_but_error s s' \<and> stop_status m"
proof (cases "unpack6 pose")
  case (Inl e)
  with assms have "stop_error e s = (m, s')"
    by (simp add: return_to_pose_def Let_def)
  from stop_error_frame[OF this] show ?thesis by (auto simp: stop_status_def)
next
  case (Inr t)
  obtain x y z rx ry rz where t: "t = (x, y, z, rx, ry, rz)" by (cases t) auto
  define sp where "sp = max 20 (min (max_tcp_lin_vel_mmps (state s))
      (max_tcp_lin_vel_mmps (state s) * (max 0 (min 100 (last_play_speed_pct (state s))) / 100)))"
  define s4 where "s4 = issue (C_set_position [x, y, z, rx, ry, rz] sp None True) s"
  have f4: "same_fields s s4" by (simp add: s4_def same_fields_issue)
  have eq: "return_to_pose hw s pose =
     (case r_set_position hw (length (calls s)) of
        Raises e \<Rightarrow> stop_error e s4
      | Returns code \<Rightarrow>
          (case check hw s4 code ''returned'' ''set_position failed'' of
             ((ok, msg), s5) \<Rightarrow>
               if \<not> ok then (''Stopped, return pose error: '' @ msg, s5) else (''Stopped'', s5)))"
    unfolding return_to_pose_def Let_def s4_def sp_def by (simp add: Inr t)
  show ?thesis
  proof (cases "r_set_position hw (length (calls s))")
    case (Raises e)
    with eq assms have "stop_error e s4 = (m, s')" by simp
    from stop_error_frame[OF this] same_but_error_of_same[OF f4]
    show ?thesis unfolding stop_status_def using same_but_error_trans by blast
  next
    case (Returns code)
    obtain ok msg s5 where c: "check hw s4 code ''returned'' ''set_position failed'' = ((ok, msg), s5)"
      by (cases "check hw s4 code ''returned'' ''set_position failed''") auto
    from check_frame[OF c] f4 have f5: "same_fields s s5" using same_fields_trans by blast
    from eq Returns c assms have "s' = s5" "m = ''Stopped'' \<or> m = ''Stopped, return pose error: '' @ msg"
      by (auto split: if_splits)
    with same_but_error_of_same[OF f5] show ?thesis unfolding stop_status_def by auto
  qed
qed

lemma stop_phase3_frame:
  assumes "stop_phase3 hw s = (m, s')"
  shows "same_but_error s s' \<and> stop_status m"
proof -
  define s3 where "s3 = (if arm s \<noteq> None then snd (set_mode_and_ready hw s 0) else s)"
  have f3: "same_fields s s3"
  proof (cases "arm s = None")
    case True then show ?thesis by (simp add: s3_def same_fields_refl)
  next
    case False
    then have "s3 = snd (set_mode_and_ready hw s 0)" by (simp add: s3_def)
    then show ?thesis
      using set_mode_and_ready_frame[of hw s 0 "fst (set_mode_and_ready hw s 0)" s3] by simp
  qed
  have eq: "stop_phase3 hw s = (case init_pose (state s3) of
           None \<Rightarrow> (''Stopped'', s3)
         | Some pose \<Rightarrow> if arm s3 = None then (''Stopped'', s3) else return_to_pose hw s3 pose)"
    unfolding stop_phase3_def s3_def Let_def by simp
  show ?thesis
  proof (cases "init_pose (state s3) = None \<or> arm s3 = None")
    case True
    with eq assms have "m = ''Stopped''" "s' = s3" by (auto split: option.splits)
    with same_but_error_of_same[OF f3] show ?thesis by (simp add: stop_status_def)
  next
    case False
    then obtain pose where "init_pose (state s3) = Some pose" "arm s3 \<noteq> None" by auto
    with eq assms have "return_to_pose hw s3 pose = (m, s')" by simp
    from return_to_pose_frame[OF this] same_but_error_of_same[OF f3]
    show ?thesis using same_but_error_trans by blast
  qed
qed

lemma stop_phase1_fields:
  "arm (stop_phase1 s) = arm s" "connected (state (stop_phase1 s)) = connected (state s)"
  "\<not> playing (state (stop_phase1 s))" "motion_thread (stop_phase1 s) = motion_thread s"
  "spawned (stop_phase1 s) = spawned s" "teach_enabled (state (stop_phase1 s)) = teach_enabled (state s)"
  by (simp_all add: stop_phase1_def Let_def)

lemma stop_motion_connected:
  assumes "connected (state s)" "arm s \<noteq> None"
  shows "stop_motion hw s = stop_phase3 hw (stop_phase1 s)"
proof -
  from assms(2) obtain a where "arm s = Some a" by auto
  with assms(1) show ?thesis by (simp add: stop_motion_def)
qed

text \<open>
  C3. On a session that is connected and holds a handle, \<open>stop_motion\<close> leaves \<open>playing\<close>
  false and returns one of its three final texts, whatever the SDK answers: also when the
  move back to the saved pose returns a non-zero code or raises.
\<close>

theorem C3_stop_leaves_not_playing:
  assumes "connected (state s)" and "arm s \<noteq> None"
  shows "\<not> playing (state (snd (stop_motion hw s))) \<and>
         (fst (stop_motion hw s) = ''Stopped'' \<or>
          (\<exists>msg. fst (stop_motion hw s) = ''Stopped, return pose error: '' @ msg) \<or>
          (\<exists>e. fst (stop_motion hw s) = ''Stop error: '' @ e))"
proof -
  obtain m s' where r: "stop_phase3 hw (stop_phase1 s) = (m, s')"
    by (cases "stop_phase3 hw (stop_phase1 s)")
  from stop_phase3_frame[OF r] have f: "same_but_error (stop_phase1 s) s'" and st: "stop_status m"
    by simp_all
  have "\<not> playing (state s')"
    using same_but_error_fields(3)[OF f] stop_phase1_fields(3)[of s] by simp
  then show ?thesis
    using st r stop_motion_connected[OF assms, of hw] by (simp add: stop_status_def)
qed

lemma ctrl_playing_eq:
  "ctrl_playing =
     \<lparr> arm = Some (XArmAPI ''192.168.1.221''),
       state = \<lparr> connected = True, ip = ''192.168.1.221'', teach_enabled = False, playing = True,
         init_pose = Some [300, 0, 200, 0, 0, 0], sdk_version = Some ''v2.4.0'',
         last_error = ''Connected'',
         max_tcp_lin_vel_mmps = 1000, max_tcp_lin_acc_mmps2 = 50000,
         last_play_speed_pct = 50, is_radian = True \<rparr>,
       stop_event = False, motion_thread = Some (200, 50, 50, ''z''), spawned = [(200, 50, 50, ''z'')],
       calls = [C_new ''192.168.1.221'', C_motion_enable True, C_set_mode 0, C_set_state 0,
                C_get_tcp_maxlin_vel, C_get_tcp_maxlin_acc, C_get_version,
                C_get_position, C_set_mode 0, C_set_state 0] \<rparr>"
  by (simp add: ctrl_playing_def play_nominal) (simp add: ctrl_connected_eq)

lemma stop_move_fails:
  "stop_motion sdk_move_fails ctrl_playing =
     (''Stop error: move failed'',
      ctrl_playing\<lparr>stop_event := True,
        state := (state ctrl_playing)\<lparr>playing := False, last_error := ''Stop error: move failed''\<rparr>,
        calls := calls ctrl_playing @ [C_set_mode 0, C_set_state 0,
                   C_set_position [300, 0, 200, 0, 0, 0] 500 None True]\<rparr>)"
  by (simp add: ctrl_playing_eq stop_motion_def stop_phase1_def stop_phase3_def return_to_pose_def
      stop_error_def unpack6_six sdk_move_fails_def sdk_nominal_def issue_def check_def
      set_mode_and_ready_def Let_def)

theorem C3_stop_leaves_not_playing_witness:
  "connected (state ctrl_playing) \<and> arm ctrl_playing \<noteq> None \<and> playing (state ctrl_playing) \<and>
   \<not> playing (state (snd (stop_motion sdk_move_fails ctrl_playing))) \<and>
   fst (stop_motion sdk_move_fails ctrl_playing) = ''Stop error: move failed''"
proof -
  have h1: "connected (state ctrl_playing)" and h2: "arm ctrl_playing \<noteq> None"
    by (simp_all add: ctrl_playing_eq)
  from C3_stop_leaves_not_playing[OF h1 h2, of sdk_move_fails] h1 h2 show ?thesis
    by (simp add: stop_move_fails) (simp add: ctrl_playing_eq)
qed

text \<open>
  C1. \<open>XArmController.disconnect\<close> on a connected session whose SDK raises in the release
  call: the handle is dropped, the error text is returned, and \<open>connected\<close> is still true.
  The sibling \<open>XArmGradioController.disconnect\<close> clears its flag in a \<open>finally\<close> clause,
  whatever the SDK does.
\<close>

theorem C1_disconnect_still_connected:
  "connected (state (snd (disconnect sdk_release_fails ctrl_connected))) \<and>
   arm (snd (disconnect sdk_release_fails ctrl_connected)) = None \<and>
   fst (disconnect sdk_release_fails ctrl_connected) = ''Disconnect error: link down''"
  by (simp add: disconnect_def ctrl_connected_eq stop_motion_def stop_phase1_def stop_phase3_def
      sdk_release_fails_def sdk_nominal_def issue_def check_def set_mode_and_ready_def Let_def)

lemma gr_disconnect_clears:
  "\<not> app_connected (gr_state (snd (gr_disconnect hw alive s))) \<and>
   gr_arm (snd (gr_disconnect hw alive s)) = None \<and>
   fst (gr_disconnect hw alive s) = (''disconnected'', False)"
  by (simp add: gr_disconnect_def Let_def)

text \<open>The flag is cleared on every path of \<open>XArmController.disconnect\<close> on which the
  release call does not raise.\<close>

lemma disconnect_released:
  assumes "\<And>e. r_disconnect hw (length (calls (snd (stop_motion hw s)))) \<noteq> Raises e"
  shows "\<not> connected (state (snd (disconnect hw s))) \<and> arm (snd (disconnect hw s)) = None"
  using assms
  by (auto simp: disconnect_def Let_def issue_def split: option.splits outcome.splits)

section \<open>Exclusive play\<close>

lemma issue_fields:
  "arm (issue c s) = arm s" "state (issue c s) = state s" "stop_event (issue c s) = stop_event s"
  "motion_thread (issue c s) = motion_thread s" "spawned (issue c s) = spawned s"
  "calls (issue c s) = calls s @ [c]"
  by (simp_all add: issue_def)

lemma check_fields:
  "arm (snd (check hw s c a b)) = arm s" "state (snd (check hw s c a b)) = state s"
  "stop_event (snd (check hw s c a b)) = stop_event s"
  "motion_thread (snd (check hw s c a b)) = motion_thread s"
  "spawned (snd (check hw s c a b)) = spawned s"
  using check_frame[of hw s c a b "fst (check hw s c a b)" "snd (check hw s c a b)"]
  by (simp_all add: same_fields_def)

lemma set_mode_and_ready_fields:
  "arm (snd (set_mode_and_ready hw s m)) = arm s" "state (snd (set_mode_and_ready hw s m)) = state s"
  "stop_event (snd (set_mode_and_ready hw s m)) = stop_event s"
  "motion_thread (snd (set_mode_and_ready hw s m)) = motion_thread s"
  "spawned (snd (set_mode_and_ready hw s m)) = spawned s"
  using set_mode_and_ready_frame[of hw s m "fst (set_mode_and_ready hw s m)" "snd (set_mode_and_ready hw s m)"]
  by (simp_all add: same_fields_def)

lemma query_limits_fields:
  "arm (query_limits hw s) = arm s"
  "connected (state (query_limits hw s)) = connected (state s)"
  "playing (state (query_limits hw s)) = playing (state s)"
  by (simp_all add: query_limits_def Let_def issue_fields split_beta
      split: outcome.splits option.splits)

lemma cache_version_fields:
  "arm (cache_version hw s) = arm s"
  "connected (state (cache_version hw s)) = connected (state s)"
  "playing (state (cache_version hw s)) = playing (state s)"
  by (simp_all add: cache_version_def Let_def issue_fields split_beta
      split: outcome.splits option.splits)

lemma connect_playing:
  "playing (state (snd (connect hw s ip_in))) = playing (state s)"
  by (simp add: connect_def Let_def split_beta connect_failed_def issue_fields check_fields
      set_mode_and_ready_fields query_limits_fields cache_version_fields
      split: outcome.splits option.splits)

lemma connect_when_connected:
  "connected (state s) \<Longrightarrow>
   connected (state (snd (connect hw s ip_in))) \<and> arm (snd (connect hw s ip_in)) = arm s"
  by (simp add: connect_def Let_def)

lemma connect_inv: "link_inv s \<Longrightarrow> link_inv (snd (connect hw s ip_in))"
  using connect_playing[of hw s ip_in] connect_when_connected[of s hw ip_in]
  unfolding link_inv_def by auto


lemma stop_phase3_fields:
  "arm (snd (stop_phase3 hw s)) = arm s"
  "connected (state (snd (stop_phase3 hw s))) = connected (state s)"
  "playing (state (snd (stop_phase3 hw s))) = playing (state s)"
  "teach_enabled (state (snd (stop_phase3 hw s))) = teach_enabled (state s)"
  "init_pose (state (snd (stop_phase3 hw s))) = init_pose (state s)"
  "motion_thread (snd (stop_phase3 hw s)) = motion_thread s"
  "spawned (snd (stop_phase3 hw s)) = spawned s"
  using same_but_error_fields[of s "snd (stop_phase3 hw s)"]
    stop_phase3_frame[of hw s "fst (stop_phase3 hw s)" "snd (stop_phase3 hw s)"]
  by simp_all

lemma stop_motion_fields:
  "arm (snd (stop_motion hw s)) = arm s"
  "connected (state (snd (stop_motion hw s))) = connected (state s)"
  "teach_enabled (state (snd (stop_motion hw s))) = teach_enabled (state s)"
  "spawned (snd (stop_motion hw s)) = spawned s"
  "playing (state (snd (stop_motion hw s))) =
     (playing (state s) \<and> \<not> (connected (state s) \<and> arm s \<noteq> None))"
  by (auto simp: stop_motion_def stop_phase3_fields stop_phase1_fields)

lemma stop_motion_inv: "link_inv s \<Longrightarrow> link_inv (snd (stop_motion hw s))"
  unfolding link_inv_def by (simp add: stop_motion_fields)

lemma disconnect_playing:
  "playing (state (snd (disconnect hw s))) = playing (state (snd (stop_motion hw s)))"
  by (simp add: disconnect_def Let_def issue_fields split: option.splits outcome.splits)

lemma disconnect_inv: "link_inv s \<Longrightarrow> link_inv (snd (disconnect hw s))"
  unfolding link_inv_def by (auto simp: disconnect_playing stop_motion_fields)

lemma toggle_teach_fields:
  "arm (snd (toggle_teach hw s)) = arm s"
  "connected (state (snd (toggle_teach hw s))) = connected (state s)"
  "playing (state (snd (toggle_teach hw s))) =
     (playing (state s) \<and> \<not> (connected (state s) \<and> arm s \<noteq> None))"
  by (auto simp: toggle_teach_def Let_def split_beta set_mode_and_ready_fields stop_motion_fields)

lemma toggle_teach_inv: "link_inv s \<Longrightarrow> link_inv (snd (toggle_teach hw s))"
  unfolding link_inv_def by (simp add: toggle_teach_fields)

lemma play_inv: "link_inv s \<Longrightarrow> link_inv (snd (play_point_to_point hw s a sp ac ax))"
  unfolding link_inv_def
  by (simp add: play_point_to_point_def Let_def split_beta issue_fields set_mode_and_ready_fields
      split: outcome.splits option.splits)

lemma bounce_frame:
  "bounce hw lo hi v a high stops s = Some s' \<Longrightarrow> same_fields s s'"
proof (induction stops arbitrary: s high)
  case Nil
  then show ?case by simp
next
  case (Cons stop stops)
  show ?case
  proof (cases stop)
    case True
    with Cons.prems show ?thesis by (simp add: same_fields_refl)
  next
    case False
    let ?s1 = "issue (C_set_position (if high then hi else lo) v (Some a) True) s"
    show ?thesis
    proof (cases "r_set_position hw (length (calls s))")
      case (Raises e)
      with False Cons.prems have "s' = ?s1" by (simp add: Let_def)
      then show ?thesis by (simp add: same_fields_issue)
    next
      case (Returns code)
      with False Cons.prems have "bounce hw lo hi v a (\<not> high) stops ?s1 = Some s'"
        by (simp add: Let_def)
      from Cons.IH[OF this] show ?thesis
        using same_fields_trans[OF same_fields_issue] by blast
    qed
  qed
qed

lemma p2p_loop_frame:
  assumes "p2p_loop hw s th stops = Some (ex, s')"
  shows "same_fields s s'"
proof -
  obtain amp sp ac ax where th: "th = (amp, sp, ac, ax)" by (cases th) auto
  from assms show ?thesis
    unfolding p2p_loop_def th
    by (auto simp: Let_def same_fields_refl same_fields_issue split: if_splits sum.splits outcome.splits prod.splits
        dest!: bounce_frame intro: same_fields_trans[OF same_fields_issue])
qed

lemma reachable_link_inv: "reachable s \<Longrightarrow> link_inv s"
proof (induction rule: reachable.induct)
  case r_init
  show ?case by (simp add: link_inv_def XArmController_init_def ArmState_init_def)
next
  case (r_loop s th hw stops ex s')
  from p2p_loop_frame[OF r_loop(3)] r_loop.IH show ?case
    by (simp add: link_inv_def same_fields_def)
qed (simp_all add: connect_inv disconnect_inv toggle_teach_inv play_inv stop_motion_inv)

text \<open>On every reachable state, also one that kept \<open>connected\<close> without a handle,
  \<open>stop_motion\<close> leaves \<open>playing\<close> false.\<close>

lemma stop_motion_reachable: "reachable s \<Longrightarrow> \<not> playing (state (snd (stop_motion hw s)))"
  using reachable_link_inv[of s] by (auto simp: link_inv_def stop_motion_fields)




section \<open>A malformed pose read\<close>

lemma check_okD: "fst (fst (check hw s code a b)) \<Longrightarrow> snd (check hw s code a b) = s"
  by (simp add: check_def split_beta split: if_splits outcome.splits)

lemma set_mode_and_ready_okD:
  "fst (fst (set_mode_and_ready hw s m)) \<Longrightarrow>
   calls (snd (set_mode_and_ready hw s m)) = calls s @ [C_set_mode m, C_set_state 0]"
  by (auto simp: set_mode_and_ready_def split_beta issue_fields check_okD
      split: if_splits outcome.splits)

lemma play_startedD:
  assumes "play_point_to_point hw s a sp ac ax = (''Point-to-point motion started'', s')"
  shows "\<exists>p. r_get_position hw (length (calls s)) = Returns (0, Some p) \<and>
     init_pose (state s') = Some p \<and> arm s' = arm s \<and> arm s \<noteq> None \<and>
     calls s' = calls s @ [C_get_position, C_set_mode 0, C_set_state 0]"
  using assms
  by (auto simp: play_point_to_point_def Let_def split_beta issue_fields set_mode_and_ready_fields
      set_mode_and_ready_okD split: if_splits outcome.splits option.splits)

lemma p2p_loop_short_pose:
  assumes "arm s \<noteq> None" and "init_pose (state s) = Some pose" and "length pose < 6"
  shows "p2p_loop hw s th stops = Some (Returned, s)"
proof -
  obtain amp sp ac ax where th: "th = (amp, sp, ac, ax)" by (cases th) auto
  from assms(1) obtain a where "arm s = Some a" by auto
  with assms(2,3) show ?thesis by (simp add: p2p_loop_def th Let_def)
qed

text \<open>
  C8, as the code has it. When the pose that a play request reads has fewer than six
  components and the request goes through, the background task it started returns at
  its length check, for every SDK and every course of the stop event, with the
  controller and the trace of SDK calls exactly as the request left them; and the
  request itself issued no move command. The request is not aborted: the task is
  started all the same.
\<close>

theorem C8_short_pose_no_move:
  assumes "play_point_to_point hw s amplitude_cm sp ac axis = (''Point-to-point motion started'', s')"
    and "r_get_position hw (length (calls s)) = Returns (code, Some pose)"
    and "length pose < 6"
  shows "\<exists>th. motion_thread s' = Some th \<and>
           p2p_loop hw' s' th stops = Some (Returned, s') \<and>
           filter is_move (calls s') = filter is_move (calls s)"
proof -
  from play_startedD[OF assms(1)] assms(2) have
    p: "init_pose (state s') = Some pose" "arm s' \<noteq> None"
       "calls s' = calls s @ [C_get_position, C_set_mode 0, C_set_state 0]"
    by auto
  from play_started_thread[OF assms(1)] obtain th where th: "motion_thread s' = Some th" by blast
  have l: "p2p_loop hw' s' th stops = Some (Returned, s')"
    by (rule p2p_loop_short_pose[OF p(2) p(1) assms(3)])
  have m: "filter is_move (calls s') = filter is_move (calls s)"
    by (simp add: p(3))
  from th l m show ?thesis by (intro exI[of _ th]) simp
qed

lemma play_short_pose:
  "play_point_to_point sdk_short_pose ctrl_connected 5 50 50 ''z'' =
     (''Point-to-point motion started'',
      ctrl_connected\<lparr>stop_event := False,
        state := (state ctrl_connected)\<lparr>init_pose := Some [300, 0, 200], playing := True,
                     last_play_speed_pct := 50\<rparr>,
        motion_thread := Some (50, 50, 50, ''z''),
        spawned := [(50, 50, 50, ''z'')],
        calls := calls ctrl_connected @ [C_get_position, C_set_mode 0, C_set_state 0]\<rparr>)"
  by (simp add: ctrl_connected_eq play_point_to_point_def sdk_short_pose_def sdk_nominal_def
      issue_def check_def set_mode_and_ready_def Let_def)

text \<open>C8 as the specification words it fails: with a three-component pose read, the request answers
  that the motion started, sets \<open>playing\<close> and starts a thread.\<close>

theorem C8_short_pose_counterexample:
  "r_get_position sdk_short_pose (length (calls ctrl_connected)) = Returns (0, Some [300, 0, 200]) \<and>
   \<not> playing (state ctrl_connected) \<and>
   fst (play_point_to_point sdk_short_pose ctrl_connected 5 50 50 ''z'') = ''Point-to-point motion started'' \<and>
   playing (state (snd (play_point_to_point sdk_short_pose ctrl_connected 5 50 50 ''z''))) \<and>
   spawned (snd (play_point_to_point sdk_short_pose ctrl_connected 5 50 50 ''z'')) = [(50, 50, 50, ''z'')]"
  by (simp add: play_short_pose) (simp add: ctrl_connected_eq sdk_short_pose_def sdk_nominal_def)

theorem C8_short_pose_no_move_witness:
  "play_point_to_point sdk_short_pose ctrl_connected 5 50 50 ''z'' =
     (''Point-to-point motion started'', snd (play_point_to_point sdk_short_pose ctrl_connected 5 50 50 ''z'')) \<and>
   r_get_position sdk_short_pose (length (calls ctrl_connected)) = Returns (0, Some [300, 0, 200]) \<and>
   length [300, 0, 200 :: real] < 6 \<and>
   (\<exists>th. motion_thread (snd (play_point_to_point sdk_short_pose ctrl_connected 5 50 50 ''z'')) = Some th \<and>
      p2p_loop sdk_nominal (snd (play_point_to_point sdk_short_pose ctrl_connected 5 50 50 ''z'')) th [False, False, True] =
        Some (Returned, snd (play_point_to_point sdk_short_pose ctrl_connected 5 50 50 ''z'')) \<and>
      filter is_move (calls (snd (play_point_to_point sdk_short_pose ctrl_connected 5 50 50 ''z''))) =
        filter is_move (calls ctrl_connected))"
proof -
  have h1: "play_point_to_point sdk_short_pose ctrl_connected 5 50 50 ''z'' =
     (''Point-to-point motion started'', snd (play_point_to_point sdk_short_pose ctrl_connected 5 50 50 ''z''))"
    by (simp add: play_short_pose)
  have h2: "r_get_position sdk_short_pose (length (calls ctrl_connected)) = Returns (0, Some [300, 0, 200])"
    by (simp add: sdk_short_pose_def sdk_nominal_def)
  have h3: "length [300, 0, 200 :: real] < 6" by simp
  from C8_short_pose_no_move[OF h1 h2 h3, of sdk_nominal "[False, False, True]"] h1 h2 h3
  show ?thesis by blast
qed

section \<open>The motion detector\<close>

lemma fold_sq_sum:
  "fold (\<lambda>(a, b) acc. acc + (a - b) * (a - b)) xs (acc :: real) = acc + (\<Sum>(a, b)\<leftarrow>xs. (a - b) * (a - b))"
  by (induction xs arbitrary: acc) auto

lemma sum_sq_deltas:
  "(\<Sum>d\<leftarrow>joint_deltas q prev. d\<^sup>2) = (\<Sum>(a, b)\<leftarrow>zip q prev. (a - b) * (a - b))"
  by (simp add: joint_deltas_def comp_def split_def power2_eq_square)

lemma py_step_is_max: "(\<lambda>y m. if m < y then y else m) = (max :: real \<Rightarrow> real \<Rightarrow> real)"
  by (auto simp: fun_eq_iff max_def)

lemma py_max_Max:
  assumes "xs \<noteq> []"
  shows "py_max xs = Some (Max (set xs))"
proof (cases xs)
  case Nil
  with assms show ?thesis by simp
next
  case (Cons a list)
  have "fold max list a = Max (set (a # list))" by (rule Max.set_eq_fold[symmetric])
  with Cons show ?thesis by (simp add: py_step_is_max)
qed

lemma abs_deltas:
  "map (\<lambda>(a, b). \<bar>a - b\<bar>) (zip q prev) = map abs (joint_deltas q prev)"
  by (simp add: joint_deltas_def comp_def split_def)

lemma detect_motion_spec:
  assumes "q \<noteq> []" and "prev \<noteq> []"
  shows "detect_motion cfg q prev = Some (spec_moved cfg q prev)"
proof -
  from assms have z: "zip q prev \<noteq> []" by (cases q; cases prev) auto
  then have nz: "map abs (joint_deltas q prev) \<noteq> []"
    by (simp add: joint_deltas_def)
  have m: "py_max (map (\<lambda>(a, b). \<bar>a - b\<bar>) (zip q prev)) = Some (spec_max_abs q prev)"
    unfolding abs_deltas spec_max_abs_def by (rule py_max_Max[OF nz])
  have d: "sqrt (fold (\<lambda>(a, b) acc. acc + (a - b) * (a - b)) (zip q prev) 0) = spec_dist q prev"
    by (simp add: fold_sq_sum spec_dist_def sum_sq_deltas)
  show ?thesis
    unfolding detect_motion_def Let_def m d
    by (simp add: spec_moved_def mult.commute)
qed

lemma report_angles_nonempty: "report_angles data = Some q \<Longrightarrow> q \<noteq> []"
  by (auto simp: report_angles_def py_truthy_def Let_def split: if_splits option.splits list.splits)

lemma moved_flag_first: "last_q s = None \<Longrightarrow> moved_flag s q = Some False"
  by (simp add: moved_flag_def)

lemma moved_flag_spec:
  "last_q s = Some prev \<Longrightarrow> prev \<noteq> [] \<Longrightarrow> q \<noteq> [] \<Longrightarrow>
   moved_flag s q = Some (spec_moved (detect_cfg s) q prev)"
  by (simp add: moved_flag_def detect_motion_spec)

lemma on_report_unusable: "report_angles data = None \<Longrightarrow> on_report hw now data s = s"
  by (simp add: on_report_def)

lemma on_report_quiet_step:
  assumes "report_angles data = Some q" and "moved_flag s q = Some False"
  shows "detect_cfg (on_report hw now data s) = detect_cfg s"
    and "last_q (on_report hw now data s) = Some q"
    and "count_list (gr_calls (on_report hw now data s)) C_start_record_trajectory =
         count_list (gr_calls s) C_start_record_trajectory"
    and "recording (gr_state (on_report hw now data s)) \<longrightarrow> recording (gr_state s)"
    and "record_started (on_report hw now data s) \<longrightarrow> record_started s"
  using assms
  by (simp_all add: on_report_def Let_def set_status_def auto_exit_teach_def stop_and_save_def
      unregister_callback_def gr_issue_def split: option.splits outcome.splits)

lemma on_report_crossing:
  assumes "report_angles data = Some q" and "moved_flag s q = Some True"
    and "teach_mode (gr_state s)" and "\<not> record_started s" and "gr_arm s \<noteq> None"
  shows "gr_calls (on_report hw now data s) = gr_calls s @ [C_start_record_trajectory]"
    and "r_start_record_trajectory hw (length (gr_calls s)) = Returns c \<Longrightarrow>
         recording (gr_state (on_report hw now data s)) \<and> record_started (on_report hw now data s)"
  using assms
  by (auto simp: on_report_def Let_def set_status_def start_recording_def gr_issue_def
      split: option.splits outcome.splits)

lemma below_bounds_never_starts:
  assumes "last_q s \<noteq> Some []" and "below_bounds (detect_cfg s) (last_q s) ticks"
  shows "count_list (gr_calls (run_reports hw s ticks)) C_start_record_trajectory =
           count_list (gr_calls s) C_start_record_trajectory \<and>
         (recording (gr_state (run_reports hw s ticks)) \<longrightarrow> recording (gr_state s))"
  using assms
proof (induction ticks arbitrary: s)
  case Nil
  show ?case by simp
next
  case (Cons tick ticks)
  obtain now data where tick: "tick = (now, data)" by (cases tick) auto
  show ?case
  proof (cases "report_angles data")
    case None
    with Cons.prems tick have "below_bounds (detect_cfg s) (last_q s) ticks" by simp
    from Cons.IH[OF Cons.prems(1) this] show ?thesis
      by (simp add: tick on_report_unusable[OF None])
  next
    case (Some q)
    then have q: "q \<noteq> []" by (rule report_angles_nonempty)
    have quiet: "moved_flag s q = Some False"
    proof (cases "last_q s")
      case None
      then show ?thesis by (rule moved_flag_first)
    next
      case (Some p)
      with Cons.prems(1) have p: "p \<noteq> []" by auto
      from Cons.prems(2) tick \<open>report_angles data = Some q\<close> Some
      have "\<not> spec_moved (detect_cfg s) q p" by (simp add: spec_moved_def)
      with moved_flag_spec[OF Some p q] show ?thesis by simp
    qed
    let ?s' = "on_report hw now data s"
    note st = on_report_quiet_step[OF Some quiet, of hw now]
    have l: "last_q ?s' \<noteq> Some []" using st(2) q by simp
    from Cons.prems(2) tick Some have "below_bounds (detect_cfg s) (Some q) ticks" by simp
    then have b: "below_bounds (detect_cfg ?s') (last_q ?s') ticks" using st(1,2) by simp
    from Cons.IH[OF l b] st(3,4) show ?thesis by (simp add: tick)
  qed
qed

lemma gr_connected_eq:
  "gr_connected =
     \<lparr> detect_cfg = DetectConfig_default, gr_arm = Some (XArmAPI ''192.168.1.221''),
       gr_state = \<lparr> app_ip = ''192.168.1.221'', app_connected = True, teach_mode = False,
         recording = False, last_status = ''connected'', traj_filename = ''gradio_record'',
         playback_speed = 1, collision_sensitivity = 3, teach_sensitivity = 3 \<rparr>,
       cb_registered = False, last_q = None, last_motion_t = 0, record_started = False,
       play_thread = None, stop_play_evt = False,
       gr_calls = [C_new ''192.168.1.221'', C_motion_enable True, C_set_mode 0, C_set_state 0,
                   C_set_collision_sensitivity 3, C_set_teach_sensitivity 3] \<rparr>"
  by (simp add: gr_connected_def gr_connect_def XArmGradioController_init_def AppState_init_def
      sdk_nominal_def gr_issue_def Let_def)

lemma gr_teaching_eq:
  "gr_teaching =
     \<lparr> detect_cfg = DetectConfig_default, gr_arm = Some (XArmAPI ''192.168.1.221''),
       gr_state = \<lparr> app_ip = ''192.168.1.221'', app_connected = True, teach_mode = True,
         recording = False, last_status = ''waiting'', traj_filename = ''gradio_record'',
         playback_speed = 1, collision_sensitivity = 3, teach_sensitivity = 3 \<rparr>,
       cb_registered = True, last_q = None, last_motion_t = 0, record_started = False,
       play_thread = None, stop_play_evt = False,
       gr_calls = [C_new ''192.168.1.221'', C_motion_enable True, C_set_mode 0, C_set_state 0,
                   C_set_collision_sensitivity 3, C_set_teach_sensitivity 3,
                   C_set_mode 2, C_set_state 0, C_register_report_callback OnReport] \<rparr>"
  by (simp add: gr_teaching_def gr_connected_eq gr_toggle_teach_def ensure_report_callback_def
      sdk_nominal_def gr_issue_def Let_def)

lemma report_angles_angles: "q \<noteq> [] \<Longrightarrow> report_angles (angles_report q) = Some q"
  by (cases q) (simp_all add: report_angles_def angles_report_def py_or_def py_truthy_def Let_def)

lemma gr_sampled_eq:
  "gr_sampled = gr_teaching\<lparr>last_q := Some [0, 0, 0, 0, 0, 0]\<rparr>"
  by (simp add: gr_sampled_def on_report_def report_angles_angles moved_flag_def gr_teaching_eq Let_def)

lemma moved_one_radian: "detect_motion DetectConfig_default [1, 0, 0, 0, 0, 0] [0, 0, 0, 0, 0, 0] = Some True"
  by (simp add: detect_motion_def DetectConfig_default_def Let_def)

lemma gr_recording_eq:
  "gr_recording =
     gr_teaching\<lparr>last_q := Some [1, 0, 0, 0, 0, 0], last_motion_t := 1, record_started := True,
       gr_state := (gr_state gr_teaching)\<lparr>recording := True, last_status := ''recording''\<rparr>,
       gr_calls := gr_calls gr_teaching @ [C_start_record_trajectory]\<rparr>"
  by (simp add: gr_recording_def gr_sampled_eq on_report_def report_angles_angles moved_flag_def
      moved_one_radian start_recording_def gr_issue_def Let_def gr_teaching_eq sdk_nominal_def)

text \<open>
  C10. A report that arrives while no previous joint sample is stored is never classified
  as motion, whatever joint values it carries: it issues no start-recording command and
  sets neither the recording flag nor \<open>_record_started\<close>. A freshly built controller
  stores no sample, so motion can be declared on its second usable report at the
  earliest.
\<close>

theorem C10_first_report_never_motion:
  assumes "last_q s = None"
  shows "moved_flag s q = Some False \<and>
         count_list (gr_calls (on_report hw now data s)) C_start_record_trajectory =
           count_list (gr_calls s) C_start_record_trajectory \<and>
         (recording (gr_state (on_report hw now data s)) \<longrightarrow> recording (gr_state s)) \<and>
         (record_started (on_report hw now data s) \<longrightarrow> record_started s) \<and>
         last_q (XArmGradioController_init cfg) = None"
proof -
  have m: "moved_flag s q = Some False" using assms by (rule moved_flag_first)
  have i: "last_q (XArmGradioController_init cfg) = None"
    by (simp add: XArmGradioController_init_def)
  show ?thesis
  proof (cases "report_angles data")
    case None
    with m i show ?thesis by (simp add: on_report_unusable)
  next
    case (Some q')
    have m': "moved_flag s q' = Some False" using assms by (rule moved_flag_first)
    from on_report_quiet_step[OF Some m', of hw now] m i show ?thesis by simp
  qed
qed

theorem C10_first_report_never_motion_witness:
  "last_q gr_teaching = None \<and> teach_mode (gr_state gr_teaching) \<and>
   moved_flag gr_teaching [1, 2, 3, 1, 2, 3] = Some False \<and>
   count_list (gr_calls (on_report sdk_nominal 0 (angles_report [1, 2, 3, 1, 2, 3]) gr_teaching))
      C_start_record_trajectory = 0 \<and>
   \<not> recording (gr_state (on_report sdk_nominal 0 (angles_report [1, 2, 3, 1, 2, 3]) gr_teaching))"
proof -
  have h: "last_q gr_teaching = None" by (simp add: gr_teaching_eq)
  from C10_first_report_never_motion[OF h, of "[1, 2, 3, 1, 2, 3]" sdk_nominal 0
      "angles_report [1, 2, 3, 1, 2, 3]"] h
  show ?thesis by (simp add: gr_teaching_eq)
qed

text \<open>
  What holds of the detector with a stored previous joint vector: (1) its verdict on a
  new joint vector is exactly \<open>dist \<ge> motion_threshold \<or> max_abs \<ge> 0.6 \<cdot> motion_threshold\<close>,
  for the Euclidean norm and the greatest absolute value of the per-joint deltas; (2) a
  report sequence whose every tick stays below both bounds issues no start-recording
  command and does not set the recording flag; (3) in teach mode, and when
  \<open>_record_started\<close> is not set, a tick that crosses either bound issues the
  start-recording command, and the recording flag is set when that command returns.
\<close>

lemma dual_criterion_fresh:
  assumes "last_q s = Some prev" and "prev \<noteq> []"
  shows "(\<forall>q. q \<noteq> [] \<longrightarrow>
            moved_flag s q = Some (spec_dist q prev \<ge> motion_threshold (detect_cfg s) \<or>
                                   spec_max_abs q prev \<ge> (6 / 10) * motion_threshold (detect_cfg s))) \<and>
         (below_bounds (detect_cfg s) (Some prev) ticks \<longrightarrow>
            count_list (gr_calls (run_reports hw s ticks)) C_start_record_trajectory =
              count_list (gr_calls s) C_start_record_trajectory \<and>
            (recording (gr_state (run_reports hw s ticks)) \<longrightarrow> recording (gr_state s))) \<and>
         (\<forall>q. report_angles data = Some q \<longrightarrow> spec_moved (detect_cfg s) q prev \<longrightarrow>
              teach_mode (gr_state s) \<longrightarrow> \<not> record_started s \<longrightarrow> gr_arm s \<noteq> None \<longrightarrow>
            gr_calls (on_report hw now data s) = gr_calls s @ [C_start_record_trajectory] \<and>
            (\<forall>c. r_start_record_trajectory hw (length (gr_calls s)) = Returns c \<longrightarrow>
                 recording (gr_state (on_report hw now data s))))"
proof (intro conjI allI impI)
  fix q :: "real list" assume "q \<noteq> []"
  from moved_flag_spec[OF assms this]
  show "moved_flag s q = Some (spec_dist q prev \<ge> motion_threshold (detect_cfg s) \<or>
                               spec_max_abs q prev \<ge> (6 / 10) * motion_threshold (detect_cfg s))"
    by (simp add: spec_moved_def)
next
  assume b: "below_bounds (detect_cfg s) (Some prev) ticks"
  have l: "last_q s \<noteq> Some []" using assms by simp
  from b assms(1) have b': "below_bounds (detect_cfg s) (last_q s) ticks" by simp
  from below_bounds_never_starts[OF l b', of hw]
  show "count_list (gr_calls (run_reports hw s ticks)) C_start_record_trajectory =
              count_list (gr_calls s) C_start_record_trajectory" by simp
  assume "recording (gr_state (run_reports hw s ticks))"
  with below_bounds_never_starts[OF l b', of hw] show "recording (gr_state s)" by simp
next
  fix q assume h: "report_angles data = Some q" "spec_moved (detect_cfg s) q prev"
    "teach_mode (gr_state s)" "\<not> record_started s" "gr_arm s \<noteq> None"
  from moved_flag_spec[OF assms report_angles_nonempty[OF h(1)]] h(2)
  have m: "moved_flag s q = Some True" by simp
  from on_report_crossing(1)[OF h(1) m h(3,4,5)]
  show "gr_calls (on_report hw now data s) = gr_calls s @ [C_start_record_trajectory]" .
  fix c assume "r_start_record_trajectory hw (length (gr_calls s)) = Returns c"
  from on_report_crossing(2)[OF h(1) m h(3,4,5) this]
  show "recording (gr_state (on_report hw now data s))" by simp
qed

lemma spec_single_joint:
  assumes "0 \<le> d"
  shows "spec_dist [d, 0, 0, 0, 0, 0] [0, 0, 0, 0, 0, 0] = d"
    and "spec_max_abs [d, 0, 0, 0, 0, 0] [0, 0, 0, 0, 0, 0] = d"
  using assms by (simp_all add: spec_dist_def spec_max_abs_def joint_deltas_def)

lemma dual_criterion_fresh_example:
  "last_q gr_sampled = Some [0, 0, 0, 0, 0, 0] \<and>
   below_bounds (detect_cfg gr_sampled) (Some [0, 0, 0, 0, 0, 0])
     [(1 / 2, angles_report [1 / 200, 0, 0, 0, 0, 0]), (1, Map.empty)] \<and>
   count_list (gr_calls (run_reports sdk_nominal gr_sampled
     [(1 / 2, angles_report [1 / 200, 0, 0, 0, 0, 0]), (1, Map.empty)])) C_start_record_trajectory = 0 \<and>
   spec_dist [1 / 100, 0, 0, 0, 0, 0] [0, 0, 0, 0, 0, 0] < motion_threshold (detect_cfg gr_sampled) \<and>
   spec_max_abs [1 / 100, 0, 0, 0, 0, 0] [0, 0, 0, 0, 0, 0] \<ge> (6 / 10) * motion_threshold (detect_cfg gr_sampled) \<and>
   moved_flag gr_sampled [1 / 100, 0, 0, 0, 0, 0] = Some True \<and>
   gr_calls (on_report sdk_nominal 2 (angles_report [1 / 100, 0, 0, 0, 0, 0]) gr_sampled) =
     gr_calls gr_sampled @ [C_start_record_trajectory] \<and>
   recording (gr_state (on_report sdk_nominal 2 (angles_report [1 / 100, 0, 0, 0, 0, 0]) gr_sampled))"
proof -
  let ?z = "[0, 0, 0, 0, 0, 0] :: real list"
  let ?ticks = "[(1 / 2, angles_report [1 / 200, 0, 0, 0, 0, 0]), (1, Map.empty)]"
  let ?jog = "[1 / 100, 0, 0, 0, 0, 0] :: real list"
  have cfg: "detect_cfg gr_sampled = DetectConfig_default"
    by (simp add: gr_sampled_eq gr_teaching_eq)
  have h1: "last_q gr_sampled = Some ?z" by (simp add: gr_sampled_eq)
  have h2: "?z \<noteq> []" by simp
  have d1: "spec_dist [1 / 200, 0, 0, 0, 0, 0] ?z = 1 / 200"
    and m1: "spec_max_abs [1 / 200, 0, 0, 0, 0, 0] ?z = 1 / 200"
    by (rule spec_single_joint; simp)+
  have d2: "spec_dist ?jog ?z = 1 / 100" and m2: "spec_max_abs ?jog ?z = 1 / 100"
    by (rule spec_single_joint; simp)+
  have e: "report_angles Map.empty = None"
    by (simp add: report_angles_def py_or_def py_truthy_def Let_def)
  have b: "below_bounds (detect_cfg gr_sampled) (Some ?z) ?ticks"
    by (simp add: cfg report_angles_angles e d1 m1 DetectConfig_default_def)
  have sm: "spec_moved (detect_cfg gr_sampled) ?jog ?z"
    by (simp add: spec_moved_def cfg m2 DetectConfig_default_def)
  have ra: "report_angles (angles_report ?jog) = Some ?jog"
    by (rule report_angles_angles) simp
  have t: "teach_mode (gr_state gr_sampled)" "\<not> record_started gr_sampled" "gr_arm gr_sampled \<noteq> None"
    by (simp_all add: gr_sampled_eq gr_teaching_eq)
  have r: "r_start_record_trajectory sdk_nominal (length (gr_calls gr_sampled)) = Returns 0"
    by (simp add: sdk_nominal_def)
  have c0: "count_list (gr_calls gr_sampled) C_start_record_trajectory = 0"
    by (simp add: gr_sampled_eq gr_teaching_eq)
  note inst = dual_criterion_fresh[OF h1 h2, of ?ticks sdk_nominal "angles_report ?jog" 2]
  from inst have p1: "moved_flag gr_sampled ?jog = Some True"
    using sm by (simp add: spec_moved_def)
  from inst b c0 have p2: "count_list (gr_calls (run_reports sdk_nominal gr_sampled ?ticks)) C_start_record_trajectory = 0"
    by simp
  from inst ra sm t r have p3: "gr_calls (on_report sdk_nominal 2 (angles_report ?jog) gr_sampled) =
     gr_calls gr_sampled @ [C_start_record_trajectory] \<and>
     recording (gr_state (on_report sdk_nominal 2 (angles_report ?jog) gr_sampled))"
    by blast
  show ?thesis
    using h1 b p1 p2 p3 by (simp add: d2 m2 cfg DetectConfig_default_def)
qed

subsection \<open>A flag that survives the disconnect\<close>

text \<open>\<open>toggle_teach(False)\<close> resets \<open>_record_started\<close> together with \<open>recording\<close>;
  \<open>disconnect\<close> clears \<open>recording\<close> and leaves \<open>_record_started\<close> as it was.\<close>

lemma gr_toggle_teach_off_resets:
  assumes "gr_arm s \<noteq> None" and "recording (gr_state s)"
  shows "\<not> record_started (snd (gr_toggle_teach hw s False)) \<and>
         \<not> recording (gr_state (snd (gr_toggle_teach hw s False)))"
  using assms
  by (auto simp: gr_toggle_teach_def unregister_callback_def gr_issue_def Let_def
      split: outcome.splits)

lemma gr_disconnect_keeps_record_started:
  "record_started (snd (gr_disconnect hw alive s)) = record_started s \<and>
   \<not> recording (gr_state (snd (gr_disconnect hw alive s)))"
  by (simp add: gr_disconnect_def stop_playback_thread_def gr_issue_def Let_def
      split: outcome.splits)

lemma gr_dropped_eq:
  "gr_dropped =
     gr_recording\<lparr>gr_arm := None, cb_registered := False,
       gr_state := (gr_state gr_recording)\<lparr>app_connected := False, teach_mode := False,
          recording := False, last_status := ''disconnected''\<rparr>,
       gr_calls := gr_calls gr_recording @
          [C_stop_record_trajectory None, C_register_report_callback Noop, C_set_mode 0,
           C_set_state 0, C_disconnect]\<rparr>"
  by (simp add: gr_dropped_def gr_disconnect_def stop_playback_thread_def gr_issue_def Let_def
      gr_recording_eq gr_teaching_eq sdk_nominal_def)

lemma gr_reconnected_eq:
  "gr_reconnected =
     gr_dropped\<lparr>gr_arm := Some (XArmAPI ''192.168.1.221''), cb_registered := True,
       gr_state := (gr_state gr_dropped)\<lparr>app_connected := True, teach_mode := True,
          last_status := ''waiting''\<rparr>,
       gr_calls := gr_calls gr_dropped @
          [C_new ''192.168.1.221'', C_motion_enable True, C_set_mode 0, C_set_state 0,
           C_set_collision_sensitivity 3, C_set_teach_sensitivity 3,
           C_set_mode 2, C_set_state 0, C_register_report_callback OnReport]\<rparr>"
  by (simp add: gr_reconnected_def gr_connect_def gr_toggle_teach_def ensure_report_callback_def
      gr_issue_def Let_def gr_dropped_eq gr_recording_eq gr_teaching_eq sdk_nominal_def)

lemma gr_reconnected_fields:
  "teach_mode (gr_state gr_reconnected)" "\<not> recording (gr_state gr_reconnected)"
  "record_started gr_reconnected" "gr_arm gr_reconnected \<noteq> None"
  "last_q gr_reconnected = Some [1, 0, 0, 0, 0, 0]"
  "detect_cfg gr_reconnected = DetectConfig_default"
  "count_list (gr_calls gr_reconnected) C_start_record_trajectory = 1"
  by (simp_all add: gr_reconnected_eq gr_dropped_eq gr_recording_eq gr_teaching_eq)

lemma moved_second_radian:
  "detect_motion DetectConfig_default [2, 0, 0, 0, 0, 0] [1, 0, 0, 0, 0, 0] = Some True"
  by (simp add: detect_motion_def DetectConfig_default_def Let_def)

lemma crossing_tick_reconnected:
  "on_report hw now (angles_report [2, 0, 0, 0, 0, 0]) gr_reconnected =
     gr_reconnected\<lparr>last_q := Some [2, 0, 0, 0, 0, 0], last_motion_t := now\<rparr>"
  by (simp add: on_report_def report_angles_angles moved_flag_def gr_reconnected_fields
      moved_second_radian Let_def)

text \<open>
  C6. The session connect, teach on, two reports of which the second starts a recording,
  disconnect, connect, teach on: the controller is in teach mode with no recording, and
  \<open>_record_started\<close> is still set from the session before. A report that moves joint 1
  by one radian is classified as motion (\<open>dist = max_abs = 1\<close>, far above both bounds),
  yet no start-recording command is issued and the recording flag stays false, for
  every SDK and at every time.
\<close>

theorem C6_stale_flag_no_start:
  "teach_mode (gr_state gr_reconnected) \<and> \<not> recording (gr_state gr_reconnected) \<and>
   gr_arm gr_reconnected \<noteq> None \<and>
   last_q gr_reconnected = Some [1, 0, 0, 0, 0, 0] \<and>
   spec_dist [2, 0, 0, 0, 0, 0] [1, 0, 0, 0, 0, 0] \<ge> motion_threshold (detect_cfg gr_reconnected) \<and>
   spec_max_abs [2, 0, 0, 0, 0, 0] [1, 0, 0, 0, 0, 0] \<ge> (6 / 10) * motion_threshold (detect_cfg gr_reconnected) \<and>
   moved_flag gr_reconnected [2, 0, 0, 0, 0, 0] = Some True \<and>
   gr_calls (on_report sdk_nominal 10 (angles_report [2, 0, 0, 0, 0, 0]) gr_reconnected) =
     gr_calls gr_reconnected \<and>
   \<not> recording (gr_state (on_report sdk_nominal 10 (angles_report [2, 0, 0, 0, 0, 0]) gr_reconnected)) \<and>
   gr_calls (run_reports sdk_nominal gr_reconnected
       [(10, angles_report [2, 0, 0, 0, 0, 0]), (10 + 1 / 100, angles_report [3, 0, 0, 0, 0, 0])]) =
     gr_calls gr_reconnected"
proof -
  have d: "spec_dist [2, 0, 0, 0, 0, 0] [1, 0, 0, 0, 0, 0] = 1"
    and m: "spec_max_abs [2, 0, 0, 0, 0, 0] [1, 0, 0, 0, 0, 0] = 1"
    by (simp_all add: spec_dist_def spec_max_abs_def joint_deltas_def)
  have mf: "moved_flag gr_reconnected [2, 0, 0, 0, 0, 0] = Some True"
    by (simp add: moved_flag_def gr_reconnected_fields moved_second_radian)
  have third: "detect_motion DetectConfig_default [3, 0, 0, 0, 0, 0] [2, 0, 0, 0, 0, 0] = Some True"
    by (simp add: detect_motion_def DetectConfig_default_def Let_def)
  have two: "gr_calls (run_reports sdk_nominal gr_reconnected
       [(10, angles_report [2, 0, 0, 0, 0, 0]), (10 + 1 / 100, angles_report [3, 0, 0, 0, 0, 0])]) =
     gr_calls gr_reconnected"
  proof -
    let ?s10 = "gr_reconnected\<lparr>last_q := Some [2, 0, 0, 0, 0, 0], last_motion_t := 10\<rparr>"
    have "run_reports sdk_nominal gr_reconnected
       [(10, angles_report [2, 0, 0, 0, 0, 0]), (10 + 1 / 100, angles_report [3, 0, 0, 0, 0, 0])] =
       on_report sdk_nominal (10 + 1 / 100) (angles_report [3, 0, 0, 0, 0, 0]) ?s10"
      by (simp only: run_reports.simps crossing_tick_reconnected)
    also have "gr_calls \<dots> = gr_calls gr_reconnected"
      by (simp add: on_report_def report_angles_angles moved_flag_def gr_reconnected_fields
          third Let_def)
    finally show ?thesis .
  qed
  show ?thesis
    using mf two
    by (simp add: gr_reconnected_fields d m crossing_tick_reconnected DetectConfig_default_def)
qed

section \<open>Idle timeout and the recording invariant\<close>

lemma on_report_idle_timeout:
  assumes "report_angles data = Some q" and "moved_flag s q = Some False"
    and "teach_mode (gr_state s)" and "record_started s"
    and "now - last_motion_t s \<ge> idle_timeout (detect_cfg s)"
  shows "on_report hw now data s = auto_exit_teach hw (stop_and_save hw (s\<lparr>last_q := Some q\<rparr>))"
  using assms by (simp add: on_report_def Let_def)





lemma still_one_radian: "detect_motion DetectConfig_default [1, 0, 0, 0, 0, 0] [1, 0, 0, 0, 0, 0] = Some False"
  by (simp add: detect_motion_def DetectConfig_default_def Let_def)

lemma gr_recording_fields:
  "teach_mode (gr_state gr_recording)" "record_started gr_recording" "recording (gr_state gr_recording)"
  "gr_arm gr_recording \<noteq> None" "last_q gr_recording = Some [1, 0, 0, 0, 0, 0]"
  "last_motion_t gr_recording = 1" "detect_cfg gr_recording = DetectConfig_default"
  "length (gr_calls gr_recording) = 10" "filter is_save (gr_calls gr_recording) = []"
  "traj_filename (gr_state gr_recording) = ''gradio_record''" "cb_registered gr_recording"
  by (simp_all add: gr_recording_eq gr_teaching_eq)

lemma default_idle_timeout: "idle_timeout DetectConfig_default = 1"
  by (simp add: DetectConfig_default_def)


lemma sdk_save_fails_resp:
  "r_stop_record_trajectory sdk_save_fails n = Raises ''save failed''"
  "r_set_mode sdk_save_fails n = Returns 0"
  "r_set_state sdk_save_fails n = Returns 0"
  by (simp_all add: sdk_save_fails_def sdk_nominal_def)

lemma idle_tick_save_fails:
  assumes "now \<ge> 2"
  shows "on_report sdk_save_fails now (angles_report [1, 0, 0, 0, 0, 0]) gr_recording =
     gr_recording\<lparr>gr_state := (gr_state gr_recording)\<lparr>last_status := ''record:save failed'', teach_mode := False\<rparr>,
       cb_registered := False,
       gr_calls := gr_calls gr_recording @ [C_stop_record_trajectory (Some ''gradio_record''), C_set_mode 0,
          C_set_state 0, C_register_report_callback Noop]\<rparr>"
proof -
  have ra: "report_angles (angles_report [1, 0, 0, 0, 0, 0]) = Some [1, 0, 0, 0, 0, 0]"
    by (rule report_angles_angles) simp
  have mf: "moved_flag gr_recording [1, 0, 0, 0, 0, 0] = Some False"
    by (simp add: moved_flag_def gr_recording_fields still_one_radian)
  have idle: "now - last_motion_t gr_recording \<ge> idle_timeout (detect_cfg gr_recording)"
    using assms by (simp add: gr_recording_fields default_idle_timeout)
  have "on_report sdk_save_fails now (angles_report [1, 0, 0, 0, 0, 0]) gr_recording =
      auto_exit_teach sdk_save_fails (stop_and_save sdk_save_fails
        (gr_recording\<lparr>last_q := Some [1, 0, 0, 0, 0, 0]\<rparr>))"
    by (rule on_report_idle_timeout[OF ra mf gr_recording_fields(1,2) idle])
  also have "\<dots> = gr_recording\<lparr>gr_state := (gr_state gr_recording)\<lparr>last_status := ''record:save failed'', teach_mode := False\<rparr>,
       cb_registered := False,
       gr_calls := gr_calls gr_recording @ [C_stop_record_trajectory (Some ''gradio_record''), C_set_mode 0,
          C_set_state 0, C_register_report_callback Noop]\<rparr>"
    by (simp add: stop_and_save_def auto_exit_teach_def unregister_callback_def set_status_def
        gr_issue_def Let_def sdk_save_fails_resp gr_recording_eq gr_teaching_eq)
  finally show ?thesis .
qed




text \<open>
  C9. The session connect, teach on, a first report, a report that moves joint 1 by one
  radian (recording starts), and an idle report four seconds later on which the save
  raises: the automatic exit clears \<open>teach_mode\<close> while \<open>recording\<close> and
  \<open>_record_started\<close> stay set. Every other operation keeps the invariant, and so does
  this one when the save does not raise.
\<close>

theorem C9_recording_outlives_teach:
  "teach_mode (gr_state gr_recording) \<and> recording (gr_state gr_recording) \<and>
   recording (gr_state (on_report sdk_save_fails 5 (angles_report [1, 0, 0, 0, 0, 0]) gr_recording)) \<and>
   \<not> teach_mode (gr_state (on_report sdk_save_fails 5 (angles_report [1, 0, 0, 0, 0, 0]) gr_recording)) \<and>
   record_started (on_report sdk_save_fails 5 (angles_report [1, 0, 0, 0, 0, 0]) gr_recording)"
  by (simp add: idle_tick_save_fails gr_recording_fields)

lemma gr_connect_rec_inv: "rec_inv s \<Longrightarrow> rec_inv (snd (gr_connect hw s ip_in))"
  by (simp add: rec_inv_def gr_connect_def gr_connect_failed_def gr_issue_def Let_def
      split: outcome.splits)

lemma gr_disconnect_rec_inv: "rec_inv (snd (gr_disconnect hw alive s))"
  by (simp add: rec_inv_def gr_disconnect_def Let_def)

lemma gr_toggle_teach_rec_inv: "rec_inv s \<Longrightarrow> rec_inv (snd (gr_toggle_teach hw s enable))"
  by (simp add: rec_inv_def gr_toggle_teach_def ensure_report_callback_def unregister_callback_def
      gr_issue_def Let_def split: outcome.splits)

lemma playback_rec_inv:
  "rec_inv s \<Longrightarrow> rec_inv (snd (start_playback alive s ui_speed))"
  "rec_inv s \<Longrightarrow> rec_inv (snd (stop_playback alive s))"
  by (simp_all add: rec_inv_def start_playback_def stop_playback_def stop_playback_thread_def
      set_status_def Let_def)

lemma on_report_rec_inv:
  assumes "rec_inv s" and "\<And>e. r_stop_record_trajectory hw (length (gr_calls s)) \<noteq> Raises e"
  shows "rec_inv (on_report hw now data s)"
  using assms
  by (auto simp: rec_inv_def on_report_def Let_def set_status_def start_recording_def stop_and_save_def
      auto_exit_teach_def unregister_callback_def gr_issue_def split: option.splits outcome.splits)

end
